theory Spec2Isabelle
  imports Complex_Main
begin

section \<open>Model registry (types.ts)\<close>

text \<open>
  JavaScript numbers are idealised as real numbers throughout: token counts, prices and
  costs are values of type \<open>real\<close>, and the arithmetic of the source is read as exact
  arithmetic (no rounding, no NaN, no infinities).
\<close>

datatype LLMProvider = Openai | Anthropic | Google | Ollama

record ModelCost =
  cost_input :: real
  cost_output :: real

record Model =
  model_id :: string
  model_name :: string
  model_provider :: LLMProvider
  supportsTools :: bool
  cost :: ModelCost

record TokenUsage =
  inputTokens :: real
  outputTokens :: real
  totalTokens :: real

definition mkModel :: "string \<Rightarrow> string \<Rightarrow> LLMProvider \<Rightarrow> bool \<Rightarrow> real \<Rightarrow> real \<Rightarrow> Model" where
  "mkModel i n p t ci co =
     \<lparr>model_id = i, model_name = n, model_provider = p, supportsTools = t,
      cost = \<lparr>cost_input = ci, cost_output = co\<rparr>\<rparr>"

text \<open>The constant \<open>MODELS\<close>: a record keyed by provider, each entry a list of models.\<close>

fun MODELS :: "LLMProvider \<Rightarrow> Model list" where
  "MODELS Openai =
     [mkModel ''gpt-4o-mini'' ''GPT-4o Mini'' Openai True 0.15 0.6,
      mkModel ''gpt-4.1-mini'' ''GPT-4.1 Mini'' Openai True 0.4 1.6,
      mkModel ''gpt-4.1-nano'' ''GPT-4.1 Nano'' Openai True 0.1 0.025,
      mkModel ''gpt-4.1'' ''GPT-4.1'' Openai True 2.0 0.5]"
| "MODELS Anthropic =
     [mkModel ''claude-sonnet-4-20250514'' ''Claude Sonnet 4'' Anthropic True 3 15,
      mkModel ''claude-3-7-sonnet-20250219'' ''Claude 3.7 Sonnet'' Anthropic True 0.3 15,
      mkModel ''claude-3-5-haiku-20241022'' ''Claude 3.5 Haiku'' Anthropic True 0.08 4]"
| "MODELS Google =
     [mkModel ''gemini-2.0-flash'' ''Gemini 2.0 Flash'' Google True 0.1 0.4,
      mkModel ''gemini-2.5-flash'' ''Gemini 2.5 Flash'' Google True 0.15 0.6]"
| "MODELS Ollama =
     [mkModel ''llama3.2'' ''Llama 3.2'' Ollama False 0 0,
      mkModel ''gemma3'' ''Gemma 3'' Ollama True 0 0]"

text \<open>The keys of \<open>MODELS\<close> in the order \<open>Object.entries\<close> and \<open>Object.values\<close> visit them.\<close>

definition MODELS_keys :: "LLMProvider list" where
  "MODELS_keys = [Openai, Anthropic, Google, Ollama]"

text \<open>\<open>getProviderForModel\<close>: the first provider one of whose models has the id, else null.\<close>

fun getProviderLoop :: "LLMProvider list \<Rightarrow> string \<Rightarrow> LLMProvider option" where
  "getProviderLoop [] modelId = None"
| "getProviderLoop (provider # rest) modelId =
     (if list_ex (\<lambda>m. model_id m = modelId) (MODELS provider) then Some provider
      else getProviderLoop rest modelId)"

definition getProviderForModel :: "string \<Rightarrow> LLMProvider option" where
  "getProviderForModel modelId = getProviderLoop MODELS_keys modelId"

text \<open>\<open>getModelInfo\<close>: the first model with the id, searching provider by provider.\<close>

fun getModelLoop :: "LLMProvider list \<Rightarrow> string \<Rightarrow> Model option" where
  "getModelLoop [] modelId = None"
| "getModelLoop (provider # rest) modelId =
     (case find (\<lambda>m. model_id m = modelId) (MODELS provider) of
        Some model \<Rightarrow> Some model
      | None \<Rightarrow> getModelLoop rest modelId)"

definition getModelInfo :: "string \<Rightarrow> Model option" where
  "getModelInfo modelId = getModelLoop MODELS_keys modelId"

section \<open>Cost calculator (utils.ts)\<close>

text \<open>
  \<open>calculateCost\<close>: no provider for the model id gives 0; a model missing from the
  provider's list falls back to the first model of the list (0 when the list is empty);
  otherwise the model's own rates are used. The warnings written to the console are not
  part of the returned value.
\<close>

definition calculateCost :: "TokenUsage \<Rightarrow> string \<Rightarrow> real" where
  "calculateCost tokenUsage modelId =
     (case getProviderForModel modelId of
        None \<Rightarrow> 0
      | Some provider \<Rightarrow>
          (let providerModels = MODELS provider in
           case find (\<lambda>m. model_id m = modelId) providerModels of
             None \<Rightarrow>
               (case providerModels of
                  [] \<Rightarrow> 0
                | fallbackModel # _ \<Rightarrow>
                    (let rates = cost fallbackModel;
                         inputCost = (inputTokens tokenUsage / 1000000) * cost_input rates;
                         outputCost = (outputTokens tokenUsage / 1000000) * cost_output rates
                     in inputCost + outputCost))
           | Some model \<Rightarrow>
               (let rates = cost model;
                    inputCost = (inputTokens tokenUsage / 1000000) * cost_input rates;
                    outputCost = (outputTokens tokenUsage / 1000000) * cost_output rates
                in inputCost + outputCost)))"

section \<open>Data model of the call layer (types.ts, utils.ts)\<close>

text \<open>
  JSON values: tool arguments and tool results. \<open>JSON.parse\<close> and
  \<open>JSON.stringify\<close> are functions of the environment (see \<open>Env\<close> below).
\<close>

datatype json =
    JNull
  | JBool bool
  | JNum real
  | JStr string
  | JArr "json list"
  | JObj "(string \<times> json) list"

datatype Role = User | Assistant | System | ToolRole

record ToolCall =
  tc_id :: string
  tc_name :: string
  tc_arguments :: json

record Message =
  msg_id :: string
  role :: Role
  content :: string
  timestamp :: nat
  toolCalls :: "ToolCall list option"
  toolCallId :: "string option"

text \<open>
  A tool holds the text of a script. What the script does when \<open>executeTool\<close> runs it
  as the body of an async function of \<open>args\<close> and \<open>fetch\<close> is its
  \<open>tool_code\<close>: it returns (resolves to) a value, throws (rejects with) an
  \<open>Error\<close> carrying a message, or throws something that is not an \<open>Error\<close>.
  A script that does not compile throws a \<open>SyntaxError\<close>, which is an \<open>Error\<close>.
\<close>

datatype ToolOutcome = Returns json | ThrowsError string | ThrowsOther

record Tool =
  tool_name :: string
  tool_description :: string
  tool_parameters :: json
  tool_code :: "json \<Rightarrow> ToolOutcome"

record LLMConfig =
  cfg_model :: string
  apiKey :: "string option"
  baseUrl :: "string option"
  temperature :: real
  maxTokens :: real

text \<open>One entry of the stored per-provider configuration record.\<close>

record ProviderConfig =
  pc_apiKey :: "string option"
  pc_baseUrl :: "string option"

text \<open>The result every adapter returns.\<close>

record ApiResult =
  res_content :: string
  res_tokenUsage :: "TokenUsage option"
  res_toolCalls :: "ToolCall list option"

record Metadata =
  md_tokenUsage :: "TokenUsage option"
  md_timeTaken :: int
  md_cost :: "real option"

record CallResult =
  cr_content :: string
  cr_metadata :: Metadata
  cr_toolCalls :: "ToolCall list option"

text \<open>
  Truthiness of an optional string (\<open>!!s\<close>): undefined and the empty string are
  falsy. A template literal prints an undefined value as the text \<open>undefined\<close>.
\<close>

definition truthy :: "string option \<Rightarrow> bool" where
  "truthy s = (case s of None \<Rightarrow> False | Some v \<Rightarrow> v \<noteq> [])"

definition interpolate :: "string option \<Rightarrow> string" where
  "interpolate s = (case s of None \<Rightarrow> ''undefined'' | Some v \<Rightarrow> v)"

text \<open>\<open>s || d\<close> for an optional string \<open>s\<close>.\<close>

definition orElse :: "string option \<Rightarrow> string \<Rightarrow> string" where
  "orElse s d = (if truthy s then the s else d)"

text \<open>\<open>n || 0\<close> for an optional number \<open>n\<close>: a missing count and a zero count both give 0.\<close>

definition orZero :: "real option \<Rightarrow> real" where
  "orZero n = (case n of None \<Rightarrow> 0 | Some v \<Rightarrow> v)"

definition truthyNum :: "real option \<Rightarrow> bool" where
  "truthyNum n = (case n of None \<Rightarrow> False | Some v \<Rightarrow> v \<noteq> 0)"

subsection \<open>Requests and responses\<close>

text \<open>
  An outgoing request: the URL, the headers and the fields of the JSON body. The body
  field \<open>stream\<close> is \<open>req_stream\<close> (the Google body has no such field: the endpoint
  in the URL chooses the transport); \<open>req_tools\<close> holds the names of the declared
  tools when the body has a \<open>tools\<close> field. \<open>req_messages\<close> is the history the
  body is built from; the vendor-specific shape each message is given in the body is not
  modelled.
\<close>

record Request =
  req_url :: string
  req_headers :: "(string \<times> string) list"
  req_model :: "string option"
  req_messages :: "Message list"
  req_temperature :: real
  req_maxTokens :: real
  req_stream :: "bool option"
  req_tools :: "string list option"

text \<open>
  A response. \<open>resp_body\<close> is \<open>response.body\<close> as its reader delivers it: a list
  of chunks, each already split into lines (\<open>None\<close> when the response has no body).
  \<open>resp_json\<close> is the outcome of \<open>response.json()\<close> on a successful response and
  \<open>resp_error\<close> its outcome on a failed one, read as \<open>error.error?.message\<close>;
  \<open>Inl\<close> is a rejection with its message. Payloads are given decoded, with the types
  the source assumes for their fields.
\<close>

record ('l, 'b) Response =
  resp_ok :: bool
  resp_statusText :: string
  resp_body :: "'l list list option"
  resp_json :: "string + 'b"
  resp_error :: "string + string option"

text \<open>Decoded stream lines. An SSE line (OpenAI, Anthropic) and a JSON line (Google, Ollama).\<close>

record StreamEvent =
  ev_choices_delta_content :: "string option"
  ev_type :: "string option"
  ev_delta_text :: "string option"
  ev_candidates_text :: "string option"
  ev_message_content :: "string option"
  ev_done :: bool
  ev_prompt_eval_count :: "real option"
  ev_eval_count :: "real option"

datatype SSELine =
    NoDataPrefix
  | DoneSentinel
  | UnparseableData
  | DataEvent StreamEvent

datatype JSONLine =
    BlankLine
  | UnparseableLine
  | LineEvent StreamEvent

text \<open>Buffered payloads of the four vendors.\<close>

datatype RawArguments = ArgumentsText string | ArgumentsValue json

record RawToolCall =
  raw_id :: string
  raw_function_name :: string
  raw_function_arguments :: RawArguments

record OpenAIUsage =
  prompt_tokens :: "real option"
  completion_tokens :: "real option"
  total_tokens :: "real option"

record OpenAIMessage =
  oa_content :: "string option"
  oa_tool_calls :: "RawToolCall list option"

record OpenAIData =
  oa_choices0_message :: "OpenAIMessage option"
  oa_usage :: "OpenAIUsage option"

datatype AnthropicBlock =
    TextBlock string
  | ToolUseBlock string string json
  | OtherBlock

record AnthropicUsage =
  input_tokens :: "real option"
  output_tokens :: "real option"

record AnthropicData =
  an_content :: "AnthropicBlock list option"
  an_usage :: "AnthropicUsage option"

record GoogleFunctionCall =
  fc_name :: string
  fc_args :: "json option"

record GooglePart =
  part_text :: "string option"
  part_functionCall :: "GoogleFunctionCall option"

record GoogleUsage =
  promptTokenCount :: "real option"
  candidatesTokenCount :: "real option"
  totalTokenCount :: "real option"

record GoogleData =
  go_candidate0_parts :: "GooglePart list option"
  go_usageMetadata :: "GoogleUsage option"

record OllamaData =
  ol_message_content :: "string option"
  ol_message_tool_calls :: "RawToolCall list option"
  ol_prompt_eval_count :: "real option"
  ol_eval_count :: "real option"

subsection \<open>The world a call runs in\<close>

text \<open>
  Callbacks are modelled by their presence: calling a supplied callback appends an event
  to the world's event log and returns (a callback of the caller that throws is outside
  the model). Every \<open>fetch\<close> appends its request to \<open>fetchLog\<close>.
\<close>

datatype Event =
    ChunkEvent string
  | ToolCallEvent ToolCall
  | ToolResultEvent string "json option" "string option"

record World =
  fetchLog :: "Request list"
  events :: "Event list"
  uuidCount :: nat
  dateCount :: nat

text \<open>
  The environment: the network (one typed \<open>fetch\<close> per vendor endpoint, which may
  also reject), \<open>JSON.parse\<close>, \<open>JSON.stringify\<close>, \<open>crypto.randomUUID\<close>,
  the clock, and the provider configurations kept in local storage. The number given to
  \<open>fetch\<close> is the number of requests issued before.
\<close>

record Env =
  fetchOpenAI :: "nat \<Rightarrow> Request \<Rightarrow> string + (SSELine, OpenAIData) Response"
  fetchAnthropic :: "nat \<Rightarrow> Request \<Rightarrow> string + (SSELine, AnthropicData) Response"
  fetchGoogle :: "nat \<Rightarrow> Request \<Rightarrow> string + (JSONLine, GoogleData) Response"
  fetchOllama :: "nat \<Rightarrow> Request \<Rightarrow> string + (JSONLine, OllamaData) Response"
  jsonParse :: "string \<Rightarrow> json option"
  jsonStringify :: "json \<Rightarrow> string"
  randomUUID :: "nat \<Rightarrow> string"
  dateNow :: "nat \<Rightarrow> nat"
  getProviderConfigs :: "LLMProvider \<Rightarrow> ProviderConfig option"

text \<open>
  A computation either throws an \<open>Error\<close> (its message, \<open>Inl\<close>) or returns a
  value, and changes the world.
\<close>

type_synonym 'a M = "World \<Rightarrow> (string + 'a) \<times> World"

definition returnM :: "'a \<Rightarrow> 'a M" where
  "returnM x = (\<lambda>w. (Inr x, w))"

definition throwM :: "string \<Rightarrow> 'a M" where
  "throwM e = (\<lambda>w. (Inl e, w))"

definition bindM :: "'a M \<Rightarrow> ('a \<Rightarrow> 'b M) \<Rightarrow> 'b M" where
  "bindM m f = (\<lambda>w. case m w of (Inl e, w') \<Rightarrow> (Inl e, w') | (Inr x, w') \<Rightarrow> f x w')"

definition fetchM :: "(nat \<Rightarrow> Request \<Rightarrow> string + 'r) \<Rightarrow> Request \<Rightarrow> 'r M" where
  "fetchM fetch request =
     (\<lambda>w. (fetch (length (fetchLog w)) request, w\<lparr>fetchLog := fetchLog w @ [request]\<rparr>))"

definition liftM :: "string + 'a \<Rightarrow> 'a M" where
  "liftM r = (\<lambda>w. (r, w))"

definition emit :: "bool \<Rightarrow> Event \<Rightarrow> World \<Rightarrow> World" where
  "emit supplied e w = (if supplied then w\<lparr>events := events w @ [e]\<rparr> else w)"

text \<open>A new message: \<open>crypto.randomUUID()\<close> for its id, \<open>new Date()\<close> for its timestamp.\<close>

definition newMessage ::
  "Env \<Rightarrow> Role \<Rightarrow> string \<Rightarrow> ToolCall list option \<Rightarrow> string option \<Rightarrow> World \<Rightarrow> Message \<times> World" where
  "newMessage env r c tcs tcid w =
     (\<lparr>msg_id = randomUUID env (uuidCount w), role = r, content = c,
       timestamp = dateNow env (dateCount w), toolCalls = tcs, toolCallId = tcid\<rparr>,
      w\<lparr>uuidCount := Suc (uuidCount w), dateCount := Suc (dateCount w)\<rparr>)"

section \<open>Tool execution and the tool round (utils.ts)\<close>

text \<open>
  \<open>executeTool\<close>: whatever the script throws is caught and thrown again as an
  \<open>Error\<close> whose message starts with \<open>Tool execution failed: \<close>.
\<close>

definition executeTool :: "Tool \<Rightarrow> json \<Rightarrow> string + json" where
  "executeTool tool args =
     (case tool_code tool args of
        Returns result \<Rightarrow> Inr result
      | ThrowsError message \<Rightarrow> Inl (''Tool execution failed: '' @ message)
      | ThrowsOther \<Rightarrow> Inl (''Tool execution failed: '' @ ''Unknown error''))"

text \<open>The \<open>try\<close> block of the tool loop up to the tool's result: find the tool, run it.\<close>

definition runToolCall :: "Tool list \<Rightarrow> ToolCall \<Rightarrow> string + json" where
  "runToolCall tools toolCall =
     (case find (\<lambda>t. tool_name t = tc_name toolCall) tools of
        None \<Rightarrow> Inl (''Tool \"'' @ tc_name toolCall @ ''\" not found'')
      | Some tool \<Rightarrow> executeTool tool (tc_arguments toolCall))"

text \<open>
  The loop over the tool calls of the first round: each call is announced, run, its
  outcome reported, and a \<open>tool\<close>-role message pushed onto the working history.
\<close>

fun executeTools ::
  "Env \<Rightarrow> Tool list \<Rightarrow> bool \<Rightarrow> bool \<Rightarrow> ToolCall list \<Rightarrow> Message list \<Rightarrow> World
     \<Rightarrow> Message list \<times> World" where
  "executeTools env tools onToolCall onToolResult [] messagesWithToolCalls w =
     (messagesWithToolCalls, w)"
| "executeTools env tools onToolCall onToolResult (toolCall # rest) messagesWithToolCalls w =
     (let w1 = emit onToolCall (ToolCallEvent toolCall) w in
      case runToolCall tools toolCall of
        Inr result \<Rightarrow>
          (let w2 = emit onToolResult (ToolResultEvent (tc_id toolCall) (Some result) None) w1;
               (toolResultMessage, w3) =
                  newMessage env ToolRole (jsonStringify env result) None (Some (tc_id toolCall)) w2
           in executeTools env tools onToolCall onToolResult rest
                (messagesWithToolCalls @ [toolResultMessage]) w3)
      | Inl errorMessage \<Rightarrow>
          (let w2 = emit onToolResult
                      (ToolResultEvent (tc_id toolCall) None (Some errorMessage)) w1;
               (errorResultMessage, w3) =
                  newMessage env ToolRole (''Error: '' @ errorMessage) None
                    (Some (tc_id toolCall)) w2
           in executeTools env tools onToolCall onToolResult rest
                (messagesWithToolCalls @ [errorResultMessage]) w3))"

text \<open>The usage of the two rounds combined.\<close>

definition combinedTokenUsage :: "TokenUsage option \<Rightarrow> TokenUsage option \<Rightarrow> TokenUsage option" where
  "combinedTokenUsage initialUsage finalUsage =
     (case (initialUsage, finalUsage) of
        (Some i, Some f) \<Rightarrow>
          Some \<lparr>inputTokens = inputTokens i + inputTokens f,
                outputTokens = outputTokens i + outputTokens f,
                totalTokens = totalTokens i + totalTokens f\<rparr>
      | _ \<Rightarrow> (case finalUsage of Some f \<Rightarrow> Some f | None \<Rightarrow> initialUsage))"

text \<open>
  The part of an adapter after its \<open>makeApiCall\<close> is defined, which the four adapters
  share word for word (the Ollama adapter passes no tool callbacks): the first round; if
  it asks for tools, the working history (the given messages, an assistant message that
  carries the tool calls, and one \<open>tool\<close>-role message for each call), and the second
  round on that history.
\<close>

definition workingHistory ::
  "Env \<Rightarrow> Tool list \<Rightarrow> bool \<Rightarrow> bool \<Rightarrow> Message list \<Rightarrow> ApiResult \<Rightarrow> ToolCall list \<Rightarrow> World
     \<Rightarrow> Message list \<times> World" where
  "workingHistory env tools onToolCall onToolResult messages initialResult toolCallsToExecute w =
     (let (assistantMessage, w1) =
            newMessage env Assistant (res_content initialResult)
              (Some toolCallsToExecute) None w
      in executeTools env tools onToolCall onToolResult toolCallsToExecute
           (messages @ [assistantMessage]) w1)"

definition toolRound ::
  "Env \<Rightarrow> (Message list \<Rightarrow> ApiResult M) \<Rightarrow> Tool list \<Rightarrow> bool \<Rightarrow> bool \<Rightarrow> Message list
     \<Rightarrow> ApiResult M" where
  "toolRound env makeApiCall tools onToolCall onToolResult messages =
     bindM (makeApiCall messages) (\<lambda>initialResult.
       case res_toolCalls initialResult of
         None \<Rightarrow> returnM initialResult
       | Some [] \<Rightarrow> returnM initialResult
       | Some toolCallsToExecute \<Rightarrow>
           (\<lambda>w.
              let (messagesWithToolCalls, w2) =
                     workingHistory env tools onToolCall onToolResult messages initialResult
                       toolCallsToExecute w
              in bindM (makeApiCall messagesWithToolCalls) (\<lambda>finalResult.
                   returnM \<lparr>res_content = res_content finalResult,
                            res_tokenUsage =
                              combinedTokenUsage (res_tokenUsage initialResult)
                                (res_tokenUsage finalResult),
                            res_toolCalls = Some toolCallsToExecute\<rparr>) w2))"

section \<open>Provider adapters (utils.ts)\<close>

text \<open>
  Reading a streamed body: the outer loop takes the chunks in order, the inner loop the
  lines of a chunk; \<open>step\<close> is what an adapter does with one line.
\<close>

definition readStream ::
  "('l \<Rightarrow> 'acc \<Rightarrow> World \<Rightarrow> 'acc \<times> World) \<Rightarrow> 'l list list \<Rightarrow> 'acc \<Rightarrow> World \<Rightarrow> 'acc \<times> World" where
  "readStream step chunks acc w =
     fold (\<lambda>chunk st. fold (\<lambda>line (a, w'). step line a w') chunk st) chunks (acc, w)"

text \<open>A text fragment of the stream: appended to the content and handed to \<open>onChunk\<close>.\<close>

definition appendFragment :: "string option \<Rightarrow> string \<Rightarrow> World \<Rightarrow> string \<times> World" where
  "appendFragment fragment fullContent w =
     (if truthy fragment
      then (fullContent @ the fragment, emit True (ChunkEvent (the fragment)) w)
      else (fullContent, w))"

definition noResponse :: "string \<Rightarrow> string" where
  "noResponse fullContent = (if fullContent \<noteq> [] then fullContent else ''No response received'')"

text \<open>\<open>parseToolArguments\<close>: a string is parsed, and gives \<open>{}\<close> when it does not parse.\<close>

definition parseToolArguments :: "Env \<Rightarrow> RawArguments \<Rightarrow> json" where
  "parseToolArguments env argumentsStr =
     (case argumentsStr of
        ArgumentsText s \<Rightarrow> (case jsonParse env s of Some v \<Rightarrow> v | None \<Rightarrow> JObj [])
      | ArgumentsValue v \<Rightarrow> v)"

definition formatToolCall :: "Env \<Rightarrow> RawToolCall \<Rightarrow> ToolCall" where
  "formatToolCall env tc =
     \<lparr>tc_id = raw_id tc, tc_name = raw_function_name tc,
      tc_arguments = parseToolArguments env (raw_function_arguments tc)\<rparr>"

definition nonEmpty :: "'a list \<Rightarrow> 'a list option" where
  "nonEmpty xs = (if length xs > 0 then Some xs else None)"

subsection \<open>OpenAI\<close>

definition openAI_request :: "LLMConfig \<Rightarrow> Tool list \<Rightarrow> bool \<Rightarrow> Message list \<Rightarrow> Request" where
  "openAI_request config tools onChunk messagesToSend =
     (let openAITools = map tool_name tools in
      \<lparr>req_url = ''https://api.openai.com/v1/chat/completions'',
       req_headers = [(''Content-Type'', ''application/json''),
                      (''Authorization'', ''Bearer '' @ interpolate (apiKey config))],
       req_model = Some (cfg_model config),
       req_messages = messagesToSend,
       req_temperature = temperature config,
       req_maxTokens = maxTokens config,
       req_stream = Some (onChunk \<and> length openAITools = 0),
       req_tools = nonEmpty openAITools\<rparr>)"

definition openAI_line :: "SSELine \<Rightarrow> string \<Rightarrow> World \<Rightarrow> string \<times> World" where
  "openAI_line line fullContent w =
     (case line of
        DataEvent parsed \<Rightarrow> appendFragment (ev_choices_delta_content parsed) fullContent w
      | _ \<Rightarrow> (fullContent, w))"

definition openAI_parse :: "Env \<Rightarrow> OpenAIData \<Rightarrow> ApiResult" where
  "openAI_parse env data =
     (let message = oa_choices0_message data;
          content = (case message of None \<Rightarrow> [] | Some m \<Rightarrow> orElse (oa_content m) []);
          toolCalls = (case message of None \<Rightarrow> None | Some m \<Rightarrow> oa_tool_calls m);
          tokenUsage =
            (case oa_usage data of
               None \<Rightarrow> None
             | Some usage \<Rightarrow>
                 Some \<lparr>inputTokens = orZero (prompt_tokens usage),
                       outputTokens = orZero (completion_tokens usage),
                       totalTokens = orZero (total_tokens usage)\<rparr>);
          formattedToolCalls =
            (case toolCalls of
               None \<Rightarrow> None
             | Some tcs \<Rightarrow> if length tcs > 0 then Some (map (formatToolCall env) tcs) else None)
      in \<lparr>res_content = content, res_tokenUsage = tokenUsage,
          res_toolCalls = formattedToolCalls\<rparr>)"

definition openAI_makeApiCall ::
  "Env \<Rightarrow> LLMConfig \<Rightarrow> Tool list \<Rightarrow> bool \<Rightarrow> Message list \<Rightarrow> ApiResult M" where
  "openAI_makeApiCall env config tools onChunk messagesToSend =
     bindM (fetchM (fetchOpenAI env) (openAI_request config tools onChunk messagesToSend))
       (\<lambda>response.
          if \<not> resp_ok response then
            bindM (liftM (resp_error response))
              (\<lambda>error. throwM (''OpenAI API error: '' @ orElse error ''Unknown error''))
          else
            (case (onChunk \<and> length (map tool_name tools) = 0, resp_body response) of
               (True, Some chunks) \<Rightarrow>
                 (\<lambda>w. let (fullContent, w') = readStream openAI_line chunks [] w
                       in (Inr \<lparr>res_content = noResponse fullContent, res_tokenUsage = None,
                                res_toolCalls = None\<rparr>, w'))
             | _ \<Rightarrow> bindM (liftM (resp_json response)) (\<lambda>data. returnM (openAI_parse env data))))"

definition callOpenAI ::
  "Env \<Rightarrow> Message list \<Rightarrow> LLMConfig \<Rightarrow> Tool list \<Rightarrow> bool \<Rightarrow> bool \<Rightarrow> bool \<Rightarrow> ApiResult M" where
  "callOpenAI env messages config tools onChunk onToolCall onToolResult =
     (if \<not> truthy (apiKey config) then throwM ''OpenAI API key is required''
      else toolRound env (openAI_makeApiCall env config tools onChunk) tools
             onToolCall onToolResult messages)"

subsection \<open>Anthropic\<close>

definition anthropic_request :: "LLMConfig \<Rightarrow> Tool list \<Rightarrow> bool \<Rightarrow> Message list \<Rightarrow> Request" where
  "anthropic_request config tools onChunk messagesToSend =
     (let anthropicTools = map tool_name tools in
      \<lparr>req_url = ''https://api.anthropic.com/v1/messages'',
       req_headers = [(''Content-Type'', ''application/json''),
                      (''x-api-key'', interpolate (apiKey config)),
                      (''anthropic-version'', ''2023-06-01'')],
       req_model = Some (cfg_model config),
       req_messages = messagesToSend,
       req_temperature = temperature config,
       req_maxTokens = maxTokens config,
       req_stream = Some (onChunk \<and> length anthropicTools = 0),
       req_tools = nonEmpty anthropicTools\<rparr>)"

definition anthropic_line :: "SSELine \<Rightarrow> string \<Rightarrow> World \<Rightarrow> string \<times> World" where
  "anthropic_line line fullContent w =
     (case line of
        DataEvent parsed \<Rightarrow>
          (if ev_type parsed = Some ''content_block_delta''
           then appendFragment (ev_delta_text parsed) fullContent w
           else (fullContent, w))
      | _ \<Rightarrow> (fullContent, w))"

fun anthropic_blocks :: "AnthropicBlock list \<Rightarrow> string \<Rightarrow> ToolCall list \<Rightarrow> string \<times> ToolCall list" where
  "anthropic_blocks [] soFar calls = (soFar, calls)"
| "anthropic_blocks (TextBlock text # rest) soFar calls =
     anthropic_blocks rest (soFar @ text) calls"
| "anthropic_blocks (ToolUseBlock i n input # rest) soFar calls =
     anthropic_blocks rest soFar
       (calls @ [\<lparr>tc_id = i, tc_name = n, tc_arguments = input\<rparr>])"
| "anthropic_blocks (OtherBlock # rest) soFar calls =
     anthropic_blocks rest soFar calls"

definition anthropic_parse :: "AnthropicData \<Rightarrow> ApiResult" where
  "anthropic_parse data =
     (let (content, toolCalls) =
            (case an_content data of
               None \<Rightarrow> ([], [])
             | Some blocks \<Rightarrow> anthropic_blocks blocks [] []);
          tokenUsage =
            (case an_usage data of
               None \<Rightarrow> None
             | Some usage \<Rightarrow>
                 Some \<lparr>inputTokens = orZero (input_tokens usage),
                       outputTokens = orZero (output_tokens usage),
                       totalTokens = orZero (input_tokens usage) + orZero (output_tokens usage)\<rparr>)
      in \<lparr>res_content = content, res_tokenUsage = tokenUsage,
          res_toolCalls = nonEmpty toolCalls\<rparr>)"

definition anthropic_makeApiCall ::
  "Env \<Rightarrow> LLMConfig \<Rightarrow> Tool list \<Rightarrow> bool \<Rightarrow> Message list \<Rightarrow> ApiResult M" where
  "anthropic_makeApiCall env config tools onChunk messagesToSend =
     bindM (fetchM (fetchAnthropic env) (anthropic_request config tools onChunk messagesToSend))
       (\<lambda>response.
          if \<not> resp_ok response then
            bindM (liftM (resp_error response))
              (\<lambda>error. throwM (''Anthropic API error: '' @ orElse error ''Unknown error''))
          else
            (case (onChunk \<and> length (map tool_name tools) = 0, resp_body response) of
               (True, Some chunks) \<Rightarrow>
                 (\<lambda>w. let (fullContent, w') = readStream anthropic_line chunks [] w
                       in (Inr \<lparr>res_content = noResponse fullContent, res_tokenUsage = None,
                                res_toolCalls = None\<rparr>, w'))
             | _ \<Rightarrow> bindM (liftM (resp_json response)) (\<lambda>data. returnM (anthropic_parse data))))"

definition callAnthropic ::
  "Env \<Rightarrow> Message list \<Rightarrow> LLMConfig \<Rightarrow> Tool list \<Rightarrow> bool \<Rightarrow> bool \<Rightarrow> bool \<Rightarrow> ApiResult M" where
  "callAnthropic env messages config tools onChunk onToolCall onToolResult =
     (if \<not> truthy (apiKey config) then throwM ''Anthropic API key is required''
      else toolRound env (anthropic_makeApiCall env config tools onChunk) tools
             onToolCall onToolResult messages)"

subsection \<open>Google\<close>

text \<open>
  Building the Google body parses the content of every \<open>tool\<close>-role message with
  \<open>JSON.parse\<close>, so building it throws when such a content is not JSON.
\<close>

fun google_toolContents :: "Env \<Rightarrow> Message list \<Rightarrow> string + unit" where
  "google_toolContents env [] = Inr ()"
| "google_toolContents env (msg # rest) =
     (if role msg = ToolRole \<and> jsonParse env (content msg) = None
      then Inl (''SyntaxError: '' @ content msg @ '' is not valid JSON'')
      else google_toolContents env rest)"

text \<open>The URL of a Google request: the model, the endpoint and the API key as a query parameter.\<close>

definition google_url :: "LLMConfig \<Rightarrow> string \<Rightarrow> string" where
  "google_url config endpoint =
     ''https://generativelanguage.googleapis.com/v1beta/models/'' @ cfg_model config
       @ '':'' @ endpoint @ ''?key='' @ interpolate (apiKey config)"

definition google_request :: "LLMConfig \<Rightarrow> Tool list \<Rightarrow> bool \<Rightarrow> Message list \<Rightarrow> Request" where
  "google_request config tools onChunk messagesToSend =
     (let googleTools = map tool_name tools;
          useStreaming = (onChunk \<and> length tools = 0);
          endpoint = (if useStreaming then ''streamGenerateContent'' else ''generateContent'')
      in
      \<lparr>req_url = google_url config endpoint,
       req_headers = [(''Content-Type'', ''application/json'')],
       req_model = None,
       req_messages = messagesToSend,
       req_temperature = temperature config,
       req_maxTokens = maxTokens config,
       req_stream = None,
       req_tools = nonEmpty googleTools\<rparr>)"

definition google_line :: "JSONLine \<Rightarrow> string \<Rightarrow> World \<Rightarrow> string \<times> World" where
  "google_line line fullContent w =
     (case line of
        LineEvent parsed \<Rightarrow> appendFragment (ev_candidates_text parsed) fullContent w
      | _ \<Rightarrow> (fullContent, w))"

definition jsonTruthy :: "json \<Rightarrow> bool" where
  "jsonTruthy v =
     (case v of JNull \<Rightarrow> False | JBool b \<Rightarrow> b | JNum n \<Rightarrow> n \<noteq> 0 | JStr s \<Rightarrow> s \<noteq> []
      | JArr _ \<Rightarrow> True | JObj _ \<Rightarrow> True)"

text \<open>Google gives a function call no id: the adapter draws one from \<open>crypto.randomUUID\<close>.\<close>

fun google_parts ::
  "Env \<Rightarrow> GooglePart list \<Rightarrow> string \<Rightarrow> ToolCall list \<Rightarrow> World \<Rightarrow> (string \<times> ToolCall list) \<times> World" where
  "google_parts env [] soFar calls w = ((soFar, calls), w)"
| "google_parts env (part # rest) soFar calls w =
     (if truthy (part_text part) then
        google_parts env rest (soFar @ the (part_text part)) calls w
      else
        (case part_functionCall part of
           Some functionCall \<Rightarrow>
             google_parts env rest soFar
               (calls @
                  [\<lparr>tc_id = randomUUID env (uuidCount w), tc_name = fc_name functionCall,
                    tc_arguments =
                      (case fc_args functionCall of
                         None \<Rightarrow> JObj []
                       | Some args \<Rightarrow> if jsonTruthy args then args else JObj [])\<rparr>])
               (w\<lparr>uuidCount := Suc (uuidCount w)\<rparr>)
         | None \<Rightarrow> google_parts env rest soFar calls w))"

definition google_parse :: "Env \<Rightarrow> GoogleData \<Rightarrow> ApiResult M" where
  "google_parse env data =
     (\<lambda>w. let ((content, toolCalls), w') =
                 (case go_candidate0_parts data of
                    None \<Rightarrow> (([], []), w)
                  | Some parts \<Rightarrow> google_parts env parts [] [] w);
               tokenUsage =
                 (case go_usageMetadata data of
                    None \<Rightarrow> None
                  | Some usage \<Rightarrow>
                      Some \<lparr>inputTokens = orZero (promptTokenCount usage),
                            outputTokens = orZero (candidatesTokenCount usage),
                            totalTokens = orZero (totalTokenCount usage)\<rparr>)
           in (Inr \<lparr>res_content = content, res_tokenUsage = tokenUsage,
                    res_toolCalls = nonEmpty toolCalls\<rparr>, w'))"

definition google_makeApiCall ::
  "Env \<Rightarrow> LLMConfig \<Rightarrow> Tool list \<Rightarrow> bool \<Rightarrow> Message list \<Rightarrow> ApiResult M" where
  "google_makeApiCall env config tools onChunk messagesToSend =
     bindM (liftM (google_toolContents env messagesToSend)) (\<lambda>_.
     bindM (fetchM (fetchGoogle env) (google_request config tools onChunk messagesToSend))
       (\<lambda>response.
          if \<not> resp_ok response then
            bindM (liftM (resp_error response))
              (\<lambda>error. throwM (''Google API error: '' @ orElse error ''Unknown error''))
          else
            (case (onChunk \<and> length tools = 0, resp_body response) of
               (True, Some chunks) \<Rightarrow>
                 (\<lambda>w. let (fullContent, w') = readStream google_line chunks [] w
                       in (Inr \<lparr>res_content = noResponse fullContent, res_tokenUsage = None,
                                res_toolCalls = None\<rparr>, w'))
             | _ \<Rightarrow> bindM (liftM (resp_json response)) (\<lambda>data. google_parse env data))))"

definition callGoogle ::
  "Env \<Rightarrow> Message list \<Rightarrow> LLMConfig \<Rightarrow> Tool list \<Rightarrow> bool \<Rightarrow> bool \<Rightarrow> bool \<Rightarrow> ApiResult M" where
  "callGoogle env messages config tools onChunk onToolCall onToolResult =
     (if \<not> truthy (apiKey config) then throwM ''Google API key is required''
      else toolRound env (google_makeApiCall env config tools onChunk) tools
             onToolCall onToolResult messages)"

subsection \<open>Ollama\<close>

definition ollama_supportsTools :: "LLMConfig \<Rightarrow> Tool list \<Rightarrow> bool" where
  "ollama_supportsTools config tools =
     (let modelInfo = getModelInfo (cfg_model config) in
      (case modelInfo of None \<Rightarrow> False | Some m \<Rightarrow> supportsTools m) \<and> length tools > 0)"

definition ollama_request :: "LLMConfig \<Rightarrow> Tool list \<Rightarrow> bool \<Rightarrow> Message list \<Rightarrow> Request" where
  "ollama_request config tools onChunk messagesToSend =
     (let baseUrl = orElse (baseUrl config) ''http://localhost:11434'';
          supportsTools = ollama_supportsTools config tools;
          ollamaTools = (if supportsTools then map tool_name tools else [])
      in
      \<lparr>req_url = baseUrl @ ''/api/chat'',
       req_headers = [(''Content-Type'', ''application/json'')],
       req_model = Some (cfg_model config),
       req_messages = messagesToSend,
       req_temperature = temperature config,
       req_maxTokens = maxTokens config,
       req_stream = Some (\<not> supportsTools \<and> onChunk),
       req_tools = (if supportsTools then Some ollamaTools else None)\<rparr>)"

definition ollama_line ::
  "JSONLine \<Rightarrow> string \<times> TokenUsage option \<Rightarrow> World \<Rightarrow> (string \<times> TokenUsage option) \<times> World" where
  "ollama_line line acc w =
     (case line of
        LineEvent parsed \<Rightarrow>
          (let (fullContent, w') = appendFragment (ev_message_content parsed) (fst acc) w;
               tokenUsage =
                 (if ev_done parsed \<and> truthyNum (ev_prompt_eval_count parsed)
                       \<and> truthyNum (ev_eval_count parsed)
                  then Some \<lparr>inputTokens = the (ev_prompt_eval_count parsed),
                             outputTokens = the (ev_eval_count parsed),
                             totalTokens = the (ev_prompt_eval_count parsed)
                                           + the (ev_eval_count parsed)\<rparr>
                  else snd acc)
           in ((fullContent, tokenUsage), w'))
      | _ \<Rightarrow> (acc, w))"

definition ollama_parse :: "Env \<Rightarrow> OllamaData \<Rightarrow> ApiResult" where
  "ollama_parse env data =
     (let content = orElse (ol_message_content data) ''No response received'';
          toolCalls =
            (case ol_message_tool_calls data of
               None \<Rightarrow> []
             | Some tcs \<Rightarrow> map (formatToolCall env) tcs);
          tokenUsage =
            (if truthyNum (ol_prompt_eval_count data) \<and> truthyNum (ol_eval_count data)
             then Some \<lparr>inputTokens = the (ol_prompt_eval_count data),
                        outputTokens = the (ol_eval_count data),
                        totalTokens = the (ol_prompt_eval_count data)
                                      + the (ol_eval_count data)\<rparr>
             else None)
      in \<lparr>res_content = content, res_tokenUsage = tokenUsage,
          res_toolCalls = nonEmpty toolCalls\<rparr>)"

definition ollama_makeApiCall ::
  "Env \<Rightarrow> LLMConfig \<Rightarrow> Tool list \<Rightarrow> bool \<Rightarrow> Message list \<Rightarrow> ApiResult M" where
  "ollama_makeApiCall env config tools onChunk messagesToSend =
     bindM (fetchM (fetchOllama env) (ollama_request config tools onChunk messagesToSend))
       (\<lambda>response.
          if \<not> resp_ok response then
            throwM (''Ollama API error: '' @ resp_statusText response)
          else
            (case (\<not> ollama_supportsTools config tools \<and> onChunk, resp_body response) of
               (True, Some chunks) \<Rightarrow>
                 (\<lambda>w. let ((fullContent, tokenUsage), w') =
                             readStream ollama_line chunks ([], None) w
                       in (Inr \<lparr>res_content = noResponse fullContent,
                                res_tokenUsage = tokenUsage, res_toolCalls = None\<rparr>, w'))
             | _ \<Rightarrow> bindM (liftM (resp_json response)) (\<lambda>data. returnM (ollama_parse env data))))"

definition callOllama ::
  "Env \<Rightarrow> Message list \<Rightarrow> LLMConfig \<Rightarrow> Tool list \<Rightarrow> bool \<Rightarrow> ApiResult M" where
  "callOllama env messages config tools onChunk =
     (if \<not> ollama_supportsTools config tools
      then ollama_makeApiCall env config tools onChunk messages
      else toolRound env (ollama_makeApiCall env config tools onChunk) tools False False messages)"

section \<open>The facade (utils.ts)\<close>

text \<open>The merge of the stored provider entry over the given config.\<close>

definition mergedConfig :: "LLMConfig \<Rightarrow> ProviderConfig option \<Rightarrow> LLMConfig" where
  "mergedConfig config providerConfig =
     (let storedKey = (case providerConfig of None \<Rightarrow> None | Some pc \<Rightarrow> pc_apiKey pc);
          storedUrl = (case providerConfig of None \<Rightarrow> None | Some pc \<Rightarrow> pc_baseUrl pc)
      in config\<lparr>apiKey := (if truthy storedKey then storedKey else apiKey config),
                baseUrl := (if truthy storedUrl then storedUrl else baseUrl config)\<rparr>)"

definition createApiCall ::
  "Env \<Rightarrow> Message list \<Rightarrow> LLMConfig \<Rightarrow> Tool list \<Rightarrow> bool \<Rightarrow> bool \<Rightarrow> bool \<Rightarrow> CallResult M" where
  "createApiCall env messages config tools onChunk onToolCall onToolResult =
     (\<lambda>w.
        let startTime = dateNow env (dateCount w);
            w0 = w\<lparr>dateCount := Suc (dateCount w)\<rparr>
        in
        case getProviderForModel (cfg_model config) of
          None \<Rightarrow> (Inl (''Unknown provider for model: '' @ cfg_model config), w0)
        | Some provider \<Rightarrow>
            (let merged = mergedConfig config (getProviderConfigs env provider) in
             case (case provider of
                     Openai \<Rightarrow> callOpenAI env messages merged tools onChunk onToolCall onToolResult
                   | Anthropic \<Rightarrow>
                       callAnthropic env messages merged tools onChunk onToolCall onToolResult
                   | Google \<Rightarrow> callGoogle env messages merged tools onChunk onToolCall onToolResult
                   | Ollama \<Rightarrow> callOllama env messages merged tools onChunk) w0 of
               (Inl e, w1) \<Rightarrow> (Inl e, w1)
             | (Inr result, w1) \<Rightarrow>
                 (let timeTaken = int (dateNow env (dateCount w1)) - int startTime;
                      w2 = w1\<lparr>dateCount := Suc (dateCount w1)\<rparr>;
                      cost = (case res_tokenUsage result of
                                None \<Rightarrow> None
                              | Some u \<Rightarrow> Some (calculateCost u (cfg_model merged)))
                  in (Inr \<lparr>cr_content = res_content result,
                           cr_metadata = \<lparr>md_tokenUsage = res_tokenUsage result,
                                          md_timeTaken = timeTaken, md_cost = cost\<rparr>,
                           cr_toolCalls = res_toolCalls result\<rparr>, w2))))"

section \<open>Observing a call\<close>

text \<open>The requests a computation issued: what it appended to the fetch log.\<close>

definition requestsSent :: "World \<Rightarrow> 'a \<times> World \<Rightarrow> Request list" where
  "requestsSent w outcome = drop (length (fetchLog w)) (fetchLog (snd outcome))"

text \<open>A usage record whose total is the sum of its two counts (no usage at all counts).\<close>

definition totalIsSum :: "TokenUsage option \<Rightarrow> bool" where
  "totalIsSum usage =
     (case usage of
        None \<Rightarrow> True
      | Some u \<Rightarrow> totalTokens u = inputTokens u + outputTokens u)"

text \<open>
  Where a request of each provider carries the credential of a config: the bearer token,
  the \<open>x-api-key\<close> header, the \<open>key\<close> query parameter, the base URL.
\<close>

definition carriesCredential :: "LLMProvider \<Rightarrow> LLMConfig \<Rightarrow> Request \<Rightarrow> bool" where
  "carriesCredential provider config r =
     (case provider of
        Openai \<Rightarrow>
          (''Authorization'', ''Bearer '' @ interpolate (apiKey config)) \<in> set (req_headers r)
      | Anthropic \<Rightarrow> (''x-api-key'', interpolate (apiKey config)) \<in> set (req_headers r)
      | Google \<Rightarrow> req_url r = google_url config ''generateContent''
                  \<or> req_url r = google_url config ''streamGenerateContent''
      | Ollama \<Rightarrow> req_url r = orElse (baseUrl config) ''http://localhost:11434'' @ ''/api/chat'')"

section \<open>Example inputs\<close>

text \<open>
  A small concrete world for evaluating the definitions: a user message, one tool named
  \<open>lookup\<close> in a version that returns a value and a version that throws
  \<open>Error("network down")\<close>, and a network whose first answer to a buffered request
  asks for the tool and whose later answers are plain text.
\<close>

definition ex_world :: World where
  "ex_world = \<lparr>fetchLog = [], events = [], uuidCount = 0, dateCount = 0\<rparr>"

definition ex_messages :: "Message list" where
  "ex_messages =
     [\<lparr>msg_id = ''m1'', role = User, content = ''Weather in Paris?'', timestamp = 1,
       toolCalls = None, toolCallId = None\<rparr>]"

definition ex_tool :: Tool where
  "ex_tool =
     \<lparr>tool_name = ''lookup'', tool_description = ''Look up the weather'',
      tool_parameters = JObj [], tool_code = (\<lambda>args. Returns (JObj [(''temp'', JNum 20)]))\<rparr>"

definition ex_failingTool :: Tool where
  "ex_failingTool =
     \<lparr>tool_name = ''lookup'', tool_description = ''Look up the weather'',
      tool_parameters = JObj [], tool_code = (\<lambda>args. ThrowsError ''network down'')\<rparr>"

definition ex_config :: "string \<Rightarrow> string option \<Rightarrow> LLMConfig" where
  "ex_config m k =
     \<lparr>cfg_model = m, apiKey = k, baseUrl = None, temperature = 0.2, maxTokens = 100\<rparr>"

definition ex_response :: "'b \<Rightarrow> ('l, 'b) Response" where
  "ex_response data =
     \<lparr>resp_ok = True, resp_statusText = ''OK'', resp_body = None, resp_json = Inr data,
      resp_error = Inl ''not an error response''\<rparr>"

definition ex_event :: "string \<Rightarrow> StreamEvent" where
  "ex_event t =
     \<lparr>ev_choices_delta_content = Some t, ev_type = Some ''content_block_delta'',
      ev_delta_text = Some t, ev_candidates_text = Some t, ev_message_content = Some t,
      ev_done = False, ev_prompt_eval_count = None, ev_eval_count = None\<rparr>"

definition ex_rawToolCall :: RawToolCall where
  "ex_rawToolCall =
     \<lparr>raw_id = ''call_1'', raw_function_name = ''lookup'',
      raw_function_arguments = ArgumentsValue (JObj [(''city'', JStr ''Paris'')])\<rparr>"

definition ex_openAIData :: "nat \<Rightarrow> OpenAIData" where
  "ex_openAIData n =
     (if n = 0 then
        \<lparr>oa_choices0_message =
           Some \<lparr>oa_content = None, oa_tool_calls = Some [ex_rawToolCall]\<rparr>,
         oa_usage = Some \<lparr>prompt_tokens = Some 10, completion_tokens = Some 1,
                           total_tokens = Some 99\<rparr>\<rparr>
      else
        \<lparr>oa_choices0_message = Some \<lparr>oa_content = Some ''It is 20 C'', oa_tool_calls = None\<rparr>,
         oa_usage = None\<rparr>)"

definition ex_anthropicData :: "nat \<Rightarrow> AnthropicData" where
  "ex_anthropicData n =
     (if n = 0 then
        \<lparr>an_content = Some [ToolUseBlock ''toolu_1'' ''lookup'' (JObj [(''city'', JStr ''Paris'')])],
         an_usage = Some \<lparr>input_tokens = Some 10, output_tokens = Some 1\<rparr>\<rparr>
      else
        \<lparr>an_content = Some [TextBlock ''It is 20 C''],
         an_usage = Some \<lparr>input_tokens = Some 30, output_tokens = Some 5\<rparr>\<rparr>)"

definition ex_googleData :: "nat \<Rightarrow> GoogleData" where
  "ex_googleData n =
     (if n = 0 then
        \<lparr>go_candidate0_parts =
           Some [\<lparr>part_text = None,
                  part_functionCall = Some \<lparr>fc_name = ''lookup'', fc_args = None\<rparr>\<rparr>],
         go_usageMetadata = None\<rparr>
      else
        \<lparr>go_candidate0_parts = Some [\<lparr>part_text = Some ''It is 20 C'', part_functionCall = None\<rparr>],
         go_usageMetadata =
           Some \<lparr>promptTokenCount = Some 30, candidatesTokenCount = Some 5,
                 totalTokenCount = None\<rparr>\<rparr>)"

definition ex_ollamaData :: "nat \<Rightarrow> OllamaData" where
  "ex_ollamaData n =
     (if n = 0 then
        \<lparr>ol_message_content = None, ol_message_tool_calls = Some [ex_rawToolCall],
         ol_prompt_eval_count = Some 10, ol_eval_count = Some 1\<rparr>
      else
        \<lparr>ol_message_content = Some ''It is 20 C'', ol_message_tool_calls = None,
         ol_prompt_eval_count = Some 30, ol_eval_count = Some 5\<rparr>)"

text \<open>
  The example network answers a request whose \<open>stream\<close> flag is set with a body of
  two chunks, and any other request with a JSON payload and no body to read.
\<close>

definition ex_reply :: "'l list list \<Rightarrow> 'b \<Rightarrow> Request \<Rightarrow> string + ('l, 'b) Response" where
  "ex_reply chunks data request =
     Inr ((ex_response data)
            \<lparr>resp_body := (if req_stream request = Some True then Some chunks else None)\<rparr>)"

definition ex_env :: "(LLMProvider \<Rightarrow> ProviderConfig option) \<Rightarrow> Env" where
  "ex_env stored =
     \<lparr>fetchOpenAI = (\<lambda>n. ex_reply [[DataEvent (ex_event ''It is '')], [DataEvent (ex_event ''20 C''), DoneSentinel]]
                          (ex_openAIData n)),
      fetchAnthropic = (\<lambda>n. ex_reply [[DataEvent (ex_event ''It is '')], [DataEvent (ex_event ''20 C'')]]
                          (ex_anthropicData n)),
      fetchGoogle = (\<lambda>n. ex_reply [[LineEvent (ex_event ''It is '')], [LineEvent (ex_event ''20 C'')]]
                          (ex_googleData n)),
      fetchOllama = (\<lambda>n. ex_reply [[LineEvent (ex_event ''It is '')], [LineEvent (ex_event ''20 C'')]]
                          (ex_ollamaData n)),
      jsonParse = (\<lambda>s. if s = ''{\"temp\":20}'' then Some (JObj [(''temp'', JNum 20)]) else None),
      jsonStringify = (\<lambda>v. if v = JObj [(''temp'', JNum 20)] then ''{\"temp\":20}'' else ''null''),
      randomUUID = (\<lambda>n. replicate (Suc n) CHR ''u''),
      dateNow = (\<lambda>n. 1000 + n),
      getProviderConfigs = stored\<rparr>"

definition ex_nothingStored :: "LLMProvider \<Rightarrow> ProviderConfig option" where
  "ex_nothingStored provider = None"

text \<open>The example tool round of the Anthropic adapter.\<close>

definition ex_anthropicConfig :: LLMConfig where
  "ex_anthropicConfig = ex_config ''claude-sonnet-4-20250514'' (Some ''a'')"

definition ex_anthropicRound :: "Message list \<Rightarrow> ApiResult M" where
  "ex_anthropicRound =
     anthropic_makeApiCall (ex_env ex_nothingStored) ex_anthropicConfig [ex_tool] True"

definition ex_toolCall :: "string \<Rightarrow> ToolCall" where
  "ex_toolCall i =
     \<lparr>tc_id = i, tc_name = ''lookup'', tc_arguments = JObj [(''city'', JStr ''Paris'')]\<rparr>"

text \<open>The example tool round of the OpenAI adapter, with the tool that throws.\<close>

definition ex_openAIConfig :: LLMConfig where
  "ex_openAIConfig = ex_config ''gpt-4o-mini'' (Some ''x'')"

definition ex_openAIRound :: "Message list \<Rightarrow> ApiResult M" where
  "ex_openAIRound =
     openAI_makeApiCall (ex_env ex_nothingStored) ex_openAIConfig [ex_failingTool] True"

text \<open>A provider store that holds a key for Anthropic only.\<close>

definition ex_anthropicStored :: "LLMProvider \<Rightarrow> ProviderConfig option" where
  "ex_anthropicStored provider =
     (case provider of
        Anthropic \<Rightarrow> Some \<lparr>pc_apiKey = Some ''sk-ant-stored'', pc_baseUrl = None\<rparr>
      | _ \<Rightarrow> None)"

text \<open>A config for an Anthropic model that still holds the key of another provider.\<close>

definition ex_leftoverConfig :: LLMConfig where
  "ex_leftoverConfig = ex_config ''claude-sonnet-4-20250514'' (Some ''sk-openai-leftover'')"

section \<open>Properties of the registry\<close>

lemma getModelLoop_provider:
  "getModelLoop ps modelId = Some m \<Longrightarrow>
     \<exists>p. getProviderLoop ps modelId = Some p \<and>
         find (\<lambda>m. model_id m = modelId) (MODELS p) = Some m"
proof (induction ps)
  case Nil
  then show ?case by simp
next
  case (Cons q qs)
  show ?case
  proof (cases "find (\<lambda>m. model_id m = modelId) (MODELS q)")
    case None
    then have "\<not> list_ex (\<lambda>m. model_id m = modelId) (MODELS q)"
      by (simp add: find_None_iff list_ex_iff)
    with None Cons show ?thesis by simp
  next
    case (Some m')
    then have "list_ex (\<lambda>m. model_id m = modelId) (MODELS q)"
      by (auto simp: find_Some_iff list_ex_iff)
    with Some Cons.prems show ?thesis by simp
  qed
qed

lemma getProviderLoop_found:
  "getProviderLoop ps modelId = Some p \<Longrightarrow>
     \<exists>m. find (\<lambda>m. model_id m = modelId) (MODELS p) = Some m"
proof (induction ps)
  case Nil
  then show ?case by simp
next
  case (Cons q qs)
  show ?case
  proof (cases "list_ex (\<lambda>m. model_id m = modelId) (MODELS q)")
    case True
    with Cons.prems have "p = q" by simp
    moreover from True have "find (\<lambda>m. model_id m = modelId) (MODELS q) \<noteq> None"
      by (auto simp: find_None_iff list_ex_iff)
    ultimately show ?thesis by auto
  next
    case False
    with Cons show ?thesis by simp
  qed
qed


lemma MODELS_rates_nonneg:
  "m \<in> set (MODELS p) \<Longrightarrow> 0 \<le> cost_input (cost m) \<and> 0 \<le> cost_output (cost m)"
  by (cases p) (auto simp: mkModel_def)

lemma find_in_set: "find P xs = Some x \<Longrightarrow> x \<in> set xs"
  by (auto simp: find_Some_iff)

lemma getProviderForModel_found:
  "getProviderForModel modelId = Some p \<Longrightarrow>
     \<exists>m. find (\<lambda>m. model_id m = modelId) (MODELS p) = Some m"
  unfolding getProviderForModel_def by (rule getProviderLoop_found)

section \<open>Properties of the call layer\<close>

lemma fold_lines_fetchLog:
  assumes "\<And>l a w. fetchLog (snd (step l a w)) = fetchLog w"
  shows "fetchLog (snd (fold (\<lambda>line (a, w'). step line a w') chunk st)) = fetchLog (snd st)"
proof (induction chunk arbitrary: st)
  case Nil
  show ?case by simp
next
  case (Cons l ls)
  show ?case by (cases st) (simp add: Cons.IH assms)
qed

lemma readStream_fetchLog:
  assumes "\<And>l a w. fetchLog (snd (step l a w)) = fetchLog w"
  shows "fetchLog (snd (readStream step chunks acc w)) = fetchLog w"
proof -
  have "fetchLog (snd (fold (\<lambda>chunk st. fold (\<lambda>line (a, w'). step line a w') chunk st) chunks st))
          = fetchLog (snd st)" for st
  proof (induction chunks arbitrary: st)
    case Nil
    show ?case by simp
  next
    case (Cons c cs)
    show ?case by (simp add: Cons.IH fold_lines_fetchLog [OF assms])
  qed
  then show ?thesis by (simp add: readStream_def)
qed

lemma emit_fetchLog [simp]: "fetchLog (emit b e w) = fetchLog w"
  by (simp add: emit_def)

lemma appendFragment_fetchLog [simp]: "fetchLog (snd (appendFragment f c w)) = fetchLog w"
  by (simp add: appendFragment_def)

lemma newMessage_fetchLog [simp]: "fetchLog (snd (newMessage env r c t i w)) = fetchLog w"
  by (simp add: newMessage_def)

lemma openAI_line_fetchLog: "fetchLog (snd (openAI_line l a w)) = fetchLog w"
  by (simp add: openAI_line_def split: SSELine.splits)

lemma anthropic_line_fetchLog: "fetchLog (snd (anthropic_line l a w)) = fetchLog w"
  by (simp add: anthropic_line_def split: SSELine.splits)

lemma google_line_fetchLog: "fetchLog (snd (google_line l a w)) = fetchLog w"
  by (simp add: google_line_def split: JSONLine.splits)

lemma ollama_line_fetchLog: "fetchLog (snd (ollama_line l a w)) = fetchLog w"
  by (simp add: ollama_line_def case_prod_unfold Let_def split: JSONLine.splits)

lemma google_parts_fetchLog: "fetchLog (snd (google_parts env ps c t w)) = fetchLog w"
  by (induction env ps c t w rule: google_parts.induct) (auto split: option.splits)

lemma executeTools_fetchLog:
  "fetchLog (snd (executeTools env tools a b tcs msgs w)) = fetchLog w"
  by (induction env tools a b tcs msgs w rule: executeTools.induct)
     (auto simp: Let_def case_prod_unfold split: sum.splits)

lemma openAI_makeApiCall_fetchLog:
  "fetchLog (snd (openAI_makeApiCall env config tools onChunk msgs w))
     = fetchLog w @ [openAI_request config tools onChunk msgs]"
  by (auto simp: openAI_makeApiCall_def bindM_def fetchM_def liftM_def throwM_def returnM_def
        case_prod_unfold Let_def readStream_fetchLog [OF openAI_line_fetchLog]
      split: sum.splits option.splits bool.splits)

lemma anthropic_makeApiCall_fetchLog:
  "fetchLog (snd (anthropic_makeApiCall env config tools onChunk msgs w))
     = fetchLog w @ [anthropic_request config tools onChunk msgs]"
  by (auto simp: anthropic_makeApiCall_def bindM_def fetchM_def liftM_def throwM_def returnM_def
        case_prod_unfold Let_def readStream_fetchLog [OF anthropic_line_fetchLog]
      split: sum.splits option.splits bool.splits)

lemma ollama_makeApiCall_fetchLog:
  "fetchLog (snd (ollama_makeApiCall env config tools onChunk msgs w))
     = fetchLog w @ [ollama_request config tools onChunk msgs]"
  by (auto simp: ollama_makeApiCall_def bindM_def fetchM_def liftM_def throwM_def returnM_def
        case_prod_unfold Let_def readStream_fetchLog [OF ollama_line_fetchLog]
      split: sum.splits option.splits bool.splits)

lemma google_makeApiCall_fetchLog:
  "fetchLog (snd (google_makeApiCall env config tools onChunk msgs w)) = fetchLog w \<or>
   fetchLog (snd (google_makeApiCall env config tools onChunk msgs w))
     = fetchLog w @ [google_request config tools onChunk msgs]"
  by (auto simp: google_makeApiCall_def google_parse_def bindM_def fetchM_def liftM_def
        throwM_def returnM_def case_prod_unfold Let_def
        readStream_fetchLog [OF google_line_fetchLog] google_parts_fetchLog
      split: sum.splits option.splits bool.splits)

lemma workingHistory_fetchLog:
  "fetchLog (snd (workingHistory env tools a b msgs initialResult tcs w)) = fetchLog w"
  by (simp add: workingHistory_def case_prod_unfold Let_def executeTools_fetchLog)

lemma toolRound_unfold:
  assumes "fst (mk msgs w) = Inr initialResult"
      and "res_toolCalls initialResult = Some tcs" and "tcs \<noteq> []"
  shows "toolRound env mk tools a b msgs w =
    (let h = workingHistory env tools a b msgs initialResult tcs (snd (mk msgs w))
     in case mk (fst h) (snd h) of
          (Inl e, w4) \<Rightarrow> (Inl e, w4)
        | (Inr finalResult, w4) \<Rightarrow>
            (Inr \<lparr>res_content = res_content finalResult,
                  res_tokenUsage = combinedTokenUsage (res_tokenUsage initialResult)
                                     (res_tokenUsage finalResult),
                  res_toolCalls = Some tcs\<rparr>, w4))"
proof -
  obtain w1 where m: "mk msgs w = (Inr initialResult, w1)"
    using assms(1) by (cases "mk msgs w") simp
  obtain tc rest where t: "tcs = tc # rest"
    using assms(3) by (cases tcs) simp_all
  show ?thesis
    using assms(2)
    by (simp add: toolRound_def bindM_def returnM_def m t case_prod_unfold Let_def
          split: sum.splits)
qed

lemma toolRound_single:
  assumes "fst (mk msgs w) = Inl e \<or>
           (\<exists>r. fst (mk msgs w) = Inr r \<and> (res_toolCalls r = None \<or> res_toolCalls r = Some []))"
  shows "toolRound env mk tools a b msgs w = mk msgs w"
  using assms
  by (cases "mk msgs w") (auto simp: toolRound_def bindM_def returnM_def)

lemma toolRound_cases:
  obtains (single) "toolRound env mk tools a b msgs w = mk msgs w"
  | (double) initialResult tcs where
      "fst (mk msgs w) = Inr initialResult" "res_toolCalls initialResult = Some tcs" "tcs \<noteq> []"
proof (cases "fst (mk msgs w)")
  case (Inl e)
  then show ?thesis using toolRound_single [of mk msgs w] single by blast
next
  case (Inr r)
  show ?thesis
  proof (cases "res_toolCalls r")
    case None
    with Inr show ?thesis using toolRound_single [of mk msgs w] single by blast
  next
    case (Some tcs)
    show ?thesis
    proof (cases "tcs = []")
      case True
      with Inr Some show ?thesis using toolRound_single [of mk msgs w] single by blast
    next
      case False
      with Inr Some show ?thesis using double by blast
    qed
  qed
qed

lemma toolRound_fetchLog:
  assumes "fst (mk msgs w) = Inr initialResult"
      and "res_toolCalls initialResult = Some tcs" and "tcs \<noteq> []"
  shows "fetchLog (snd (toolRound env mk tools a b msgs w)) =
           fetchLog (snd (mk (fst (workingHistory env tools a b msgs initialResult tcs (snd (mk msgs w))))
                             (snd (workingHistory env tools a b msgs initialResult tcs (snd (mk msgs w))))))"
  by (simp add: toolRound_unfold [where mk = mk and msgs = msgs and w = w, OF assms] Let_def
        split: prod.splits sum.splits)

lemma toolRound_requests:
  assumes mk: "\<And>msgs w. \<exists>rs. fetchLog (snd (mk msgs w)) = fetchLog w @ rs \<and> list_all P rs"
  shows "\<exists>rs. fetchLog (snd (toolRound env mk tools a b msgs w)) = fetchLog w @ rs \<and> list_all P rs"
proof (cases rule: toolRound_cases [of env mk tools a b msgs w])
  case single
  then show ?thesis using mk by simp
next
  case (double initialResult tcs)
  define h where "h = workingHistory env tools a b msgs initialResult tcs (snd (mk msgs w))"
  from mk [of msgs w] obtain rs1
    where rs1: "fetchLog (snd (mk msgs w)) = fetchLog w @ rs1" "list_all P rs1"
    by blast
  from mk [of "fst h" "snd h"] obtain rs2
    where rs2: "fetchLog (snd (mk (fst h) (snd h))) = fetchLog (snd h) @ rs2" "list_all P rs2"
    by blast
  have "fetchLog (snd h) = fetchLog (snd (mk msgs w))"
    by (simp add: h_def workingHistory_fetchLog)
  with rs1 rs2 toolRound_fetchLog [where mk = mk and msgs = msgs and w = w, OF double, of env tools a b]
  have "fetchLog (snd (toolRound env mk tools a b msgs w)) = fetchLog w @ (rs1 @ rs2)"
    by (simp add: h_def)
  moreover have "list_all P (rs1 @ rs2)" using rs1 rs2 by simp
  ultimately show ?thesis by blast
qed

lemma toolRound_requestsSent:
  assumes mk: "\<And>msgs w. \<exists>rs. fetchLog (snd (mk msgs w)) = fetchLog w @ rs \<and> list_all P rs"
  shows "list_all P (requestsSent w (toolRound env mk tools a b msgs w))"
proof -
  from toolRound_requests [of mk P, OF mk] obtain rs
    where "fetchLog (snd (toolRound env mk tools a b msgs w)) = fetchLog w @ rs" "list_all P rs"
    by blast
  then show ?thesis by (simp add: requestsSent_def)
qed

lemma callOpenAI_buffered:
  assumes "tools \<noteq> []"
  shows "list_all (\<lambda>r. req_stream r = Some False)
           (requestsSent w (callOpenAI env messages config tools onChunk onToolCall onToolResult w))"
proof (cases "truthy (apiKey config)")
  case True
  have "\<exists>rs. fetchLog (snd (openAI_makeApiCall env config tools onChunk msgs w)) = fetchLog w @ rs
            \<and> list_all (\<lambda>r. req_stream r = Some False) rs" for msgs w
    using assms by (simp add: openAI_makeApiCall_fetchLog openAI_request_def)
  then show ?thesis using True by (simp add: callOpenAI_def toolRound_requestsSent)
next
  case False
  then show ?thesis by (simp add: callOpenAI_def throwM_def requestsSent_def)
qed

lemma callAnthropic_buffered:
  assumes "tools \<noteq> []"
  shows "list_all (\<lambda>r. req_stream r = Some False)
           (requestsSent w (callAnthropic env messages config tools onChunk onToolCall onToolResult w))"
proof (cases "truthy (apiKey config)")
  case True
  have "\<exists>rs. fetchLog (snd (anthropic_makeApiCall env config tools onChunk msgs w)) = fetchLog w @ rs
            \<and> list_all (\<lambda>r. req_stream r = Some False) rs" for msgs w
    using assms by (simp add: anthropic_makeApiCall_fetchLog anthropic_request_def)
  then show ?thesis using True by (simp add: callAnthropic_def toolRound_requestsSent)
next
  case False
  then show ?thesis by (simp add: callAnthropic_def throwM_def requestsSent_def)
qed

lemma callGoogle_buffered:
  assumes "tools \<noteq> []"
  shows "list_all (\<lambda>r. req_url r = google_url config ''generateContent'')
           (requestsSent w (callGoogle env messages config tools onChunk onToolCall onToolResult w))"
proof (cases "truthy (apiKey config)")
  case True
  have "\<exists>rs. fetchLog (snd (google_makeApiCall env config tools onChunk msgs w)) = fetchLog w @ rs
            \<and> list_all (\<lambda>r. req_url r = google_url config ''generateContent'') rs" for msgs w
    using assms google_makeApiCall_fetchLog [of env config tools onChunk msgs w]
    by (auto simp: google_request_def)
  then show ?thesis using True by (simp add: callGoogle_def toolRound_requestsSent)
next
  case False
  then show ?thesis by (simp add: callGoogle_def throwM_def requestsSent_def)
qed

lemma callOllama_buffered:
  assumes "ollama_supportsTools config tools"
  shows "list_all (\<lambda>r. req_stream r = Some False \<and> req_tools r = Some (map tool_name tools))
           (requestsSent w (callOllama env messages config tools onChunk w))"
proof -
  have "\<exists>rs. fetchLog (snd (ollama_makeApiCall env config tools onChunk msgs w)) = fetchLog w @ rs
            \<and> list_all (\<lambda>r. req_stream r = Some False \<and> req_tools r = Some (map tool_name tools)) rs" for msgs w
    using assms by (simp add: ollama_makeApiCall_fetchLog ollama_request_def)
  then show ?thesis using assms by (simp add: callOllama_def toolRound_requestsSent)
qed

lemma callOllama_plain:
  assumes "\<not> ollama_supportsTools config tools"
  shows "requestsSent w (callOllama env messages config tools onChunk w)
           = [ollama_request config tools onChunk messages]"
    and "req_stream (ollama_request config tools onChunk messages) = Some onChunk"
    and "req_tools (ollama_request config tools onChunk messages) = None"
  using assms
  by (simp_all add: callOllama_def requestsSent_def ollama_makeApiCall_fetchLog ollama_request_def)

lemma toolRound_first_request:
  assumes mk: "\<And>msgs w. fetchLog (snd (mk msgs w)) = fetchLog w @ [req msgs]"
  shows "\<exists>rs. requestsSent w (toolRound env mk tools a b msgs w) = req msgs # rs"
proof (cases rule: toolRound_cases [of env mk tools a b msgs w])
  case single
  then show ?thesis using mk by (simp add: requestsSent_def)
next
  case (double initialResult tcs)
  show ?thesis
    using toolRound_fetchLog [where mk = mk and msgs = msgs and w = w, OF double, of env tools a b]
    by (simp add: mk workingHistory_fetchLog requestsSent_def)
qed

lemma callOllama_default_baseUrl:
  assumes "\<not> truthy (baseUrl config)"
  shows "\<exists>rs. requestsSent w (callOllama env messages config tools onChunk w)
            = ollama_request config tools onChunk messages # rs"
    and "req_url (ollama_request config tools onChunk messages) = ''http://localhost:11434/api/chat''"
proof -
  show "\<exists>rs. requestsSent w (callOllama env messages config tools onChunk w)
            = ollama_request config tools onChunk messages # rs"
  proof (cases "ollama_supportsTools config tools")
    case True
    then show ?thesis
      using toolRound_first_request
              [of "ollama_makeApiCall env config tools onChunk"
                  "ollama_request config tools onChunk", OF ollama_makeApiCall_fetchLog]
      by (simp add: callOllama_def)
  next
    case False
    then show ?thesis
      by (simp add: callOllama_def requestsSent_def ollama_makeApiCall_fetchLog)
  qed
  show "req_url (ollama_request config tools onChunk messages) = ''http://localhost:11434/api/chat''"
    using assms by (simp add: ollama_request_def orElse_def Let_def)
qed

lemma executeTools_messages:
  "\<exists>toolMessages.
      fst (executeTools env tools a b tcs msgs w) = msgs @ toolMessages \<and>
      length toolMessages = length tcs \<and>
      (\<forall>i<length tcs.
         role (toolMessages ! i) = ToolRole \<and>
         toolCallId (toolMessages ! i) = Some (tc_id (tcs ! i)) \<and>
         content (toolMessages ! i) =
           (case runToolCall tools (tcs ! i) of
              Inr result \<Rightarrow> jsonStringify env result
            | Inl errorMessage \<Rightarrow> ''Error: '' @ errorMessage))"
proof (induction env tools a b tcs msgs w rule: executeTools.induct)
  case (1 env tools a b msgs w)
  show ?case by simp
next
  case (2 env tools a b tc rest msgs w)
  define w1 where "w1 = emit a (ToolCallEvent tc) w"
  show ?case
  proof (cases "runToolCall tools tc")
    case (Inr result)
    define w2 where "w2 = emit b (ToolResultEvent (tc_id tc) (Some result) None) w1"
    obtain m w3 where nm: "newMessage env ToolRole (jsonStringify env result) None (Some (tc_id tc)) w2 = (m, w3)"
      by (cases "newMessage env ToolRole (jsonStringify env result) None (Some (tc_id tc)) w2")
    from "2.IH"(2) [OF w1_def Inr w2_def refl nm [symmetric]]
    obtain tms where tms: "fst (executeTools env tools a b rest (msgs @ [m]) w3) = (msgs @ [m]) @ tms"
        "length tms = length rest"
        "\<forall>i<length rest. role (tms ! i) = ToolRole \<and> toolCallId (tms ! i) = Some (tc_id (rest ! i)) \<and>
           content (tms ! i) = (case runToolCall tools (rest ! i) of Inr result \<Rightarrow> jsonStringify env result
            | Inl errorMessage \<Rightarrow> ''Error: '' @ errorMessage)"
      by blast
    have mprops: "role m = ToolRole" "toolCallId m = Some (tc_id tc)" "content m = jsonStringify env result"
      using nm by (auto simp: newMessage_def)
    have eq: "executeTools env tools a b (tc # rest) msgs w = executeTools env tools a b rest (msgs @ [m]) w3"
      using Inr nm by (simp add: w1_def w2_def Let_def)
    show ?thesis
    proof (intro exI [of _ "m # tms"] conjI allI impI)
      show "fst (executeTools env tools a b (tc # rest) msgs w) = msgs @ m # tms"
        using eq tms(1) by simp
      show "length (m # tms) = length (tc # rest)" using tms(2) by simp
      fix i assume "i < length (tc # rest)"
      then show "role ((m # tms) ! i) = ToolRole" "toolCallId ((m # tms) ! i) = Some (tc_id ((tc # rest) ! i))"
         "content ((m # tms) ! i) = (case runToolCall tools ((tc # rest) ! i) of Inr result \<Rightarrow> jsonStringify env result
            | Inl errorMessage \<Rightarrow> ''Error: '' @ errorMessage)"
        using tms(3) mprops Inr by (cases i; simp)+
    qed
  next
    case (Inl errorMessage)
    define w2 where "w2 = emit b (ToolResultEvent (tc_id tc) None (Some errorMessage)) w1"
    obtain m w3 where nm: "newMessage env ToolRole (''Error: '' @ errorMessage) None (Some (tc_id tc)) w2 = (m, w3)"
      by (cases "newMessage env ToolRole (''Error: '' @ errorMessage) None (Some (tc_id tc)) w2")
    from "2.IH"(1) [OF w1_def Inl w2_def refl nm [symmetric]]
    obtain tms where tms: "fst (executeTools env tools a b rest (msgs @ [m]) w3) = (msgs @ [m]) @ tms"
        "length tms = length rest"
        "\<forall>i<length rest. role (tms ! i) = ToolRole \<and> toolCallId (tms ! i) = Some (tc_id (rest ! i)) \<and>
           content (tms ! i) = (case runToolCall tools (rest ! i) of Inr result \<Rightarrow> jsonStringify env result
            | Inl errorMessage \<Rightarrow> ''Error: '' @ errorMessage)"
      by blast
    have mprops: "role m = ToolRole" "toolCallId m = Some (tc_id tc)" "content m = ''Error: '' @ errorMessage"
      using nm by (auto simp: newMessage_def)
    have eq: "executeTools env tools a b (tc # rest) msgs w = executeTools env tools a b rest (msgs @ [m]) w3"
      using Inl nm by (simp add: w1_def w2_def Let_def)
    show ?thesis
    proof (intro exI [of _ "m # tms"] conjI allI impI)
      show "fst (executeTools env tools a b (tc # rest) msgs w) = msgs @ m # tms"
        using eq tms(1) by simp
      show "length (m # tms) = length (tc # rest)" using tms(2) by simp
      fix i assume "i < length (tc # rest)"
      then show "role ((m # tms) ! i) = ToolRole" "toolCallId ((m # tms) ! i) = Some (tc_id ((tc # rest) ! i))"
         "content ((m # tms) ! i) = (case runToolCall tools ((tc # rest) ! i) of Inr result \<Rightarrow> jsonStringify env result
            | Inl errorMessage \<Rightarrow> ''Error: '' @ errorMessage)"
        using tms(3) mprops Inl by (cases i; simp)+
    qed
  qed
qed

lemma workingHistory_messages:
  "\<exists>assistantMessage toolMessages.
      fst (workingHistory env tools a b msgs initialResult tcs w)
        = msgs @ assistantMessage # toolMessages \<and>
      role assistantMessage = Assistant \<and>
      content assistantMessage = res_content initialResult \<and>
      toolCalls assistantMessage = Some tcs \<and>
      length toolMessages = length tcs \<and>
      (\<forall>i<length tcs.
         role (toolMessages ! i) = ToolRole \<and>
         toolCallId (toolMessages ! i) = Some (tc_id (tcs ! i)) \<and>
         content (toolMessages ! i) =
           (case runToolCall tools (tcs ! i) of
              Inr result \<Rightarrow> jsonStringify env result
            | Inl errorMessage \<Rightarrow> ''Error: '' @ errorMessage))"
proof -
  obtain am w1
    where nm: "newMessage env Assistant (res_content initialResult) (Some tcs) None w = (am, w1)"
    by (cases "newMessage env Assistant (res_content initialResult) (Some tcs) None w")
  then have am: "role am = Assistant" "content am = res_content initialResult"
      "toolCalls am = Some tcs"
    by (auto simp: newMessage_def)
  from executeTools_messages [of env tools a b tcs "msgs @ [am]" w1]
  obtain tms where tms: "fst (executeTools env tools a b tcs (msgs @ [am]) w1) = (msgs @ [am]) @ tms"
      "length tms = length tcs"
      "\<forall>i<length tcs.
         role (tms ! i) = ToolRole \<and>
         toolCallId (tms ! i) = Some (tc_id (tcs ! i)) \<and>
         content (tms ! i) =
           (case runToolCall tools (tcs ! i) of
              Inr result \<Rightarrow> jsonStringify env result
            | Inl errorMessage \<Rightarrow> ''Error: '' @ errorMessage)"
    by blast
  have "fst (workingHistory env tools a b msgs initialResult tcs w) = msgs @ am # tms"
    using nm tms(1) by (simp add: workingHistory_def)
  with am tms(2,3) show ?thesis by blast
qed

lemma combinedTokenUsage_totalIsSum:
  "totalIsSum a \<Longrightarrow> totalIsSum b \<Longrightarrow> totalIsSum (combinedTokenUsage a b)"
  by (auto simp: totalIsSum_def combinedTokenUsage_def split: option.splits)

lemma toolRound_totalIsSum:
  assumes mk: "\<And>msgs w r. fst (mk msgs w) = Inr r \<Longrightarrow> totalIsSum (res_tokenUsage r)"
      and res: "fst (toolRound env mk tools a b msgs w) = Inr result"
  shows "totalIsSum (res_tokenUsage result)"
proof (cases rule: toolRound_cases [of env mk tools a b msgs w])
  case single
  with res mk show ?thesis by simp
next
  case (double initialResult tcs)
  define h where "h = workingHistory env tools a b msgs initialResult tcs (snd (mk msgs w))"
  have u: "toolRound env mk tools a b msgs w =
      (case mk (fst h) (snd h) of
          (Inl e, w4) \<Rightarrow> (Inl e, w4)
        | (Inr finalResult, w4) \<Rightarrow>
            (Inr \<lparr>res_content = res_content finalResult,
                  res_tokenUsage = combinedTokenUsage (res_tokenUsage initialResult)
                                     (res_tokenUsage finalResult),
                  res_toolCalls = Some tcs\<rparr>, w4))"
    using toolRound_unfold [where mk = mk and msgs = msgs and w = w, OF double, of env tools a b]
    by (simp add: h_def Let_def)
  obtain r w4 where f: "mk (fst h) (snd h) = (r, w4)" by (cases "mk (fst h) (snd h)")
  show ?thesis
  proof (cases r)
    case (Inl e)
    with u f res show ?thesis by simp
  next
    case (Inr finalResult)
    with f have "fst (mk (fst h) (snd h)) = Inr finalResult" by simp
    then have "totalIsSum (res_tokenUsage finalResult)" by (rule mk)
    moreover have "totalIsSum (res_tokenUsage initialResult)" using double(1) by (rule mk)
    moreover from u f Inr res
    have "res_tokenUsage result =
            combinedTokenUsage (res_tokenUsage initialResult) (res_tokenUsage finalResult)"
      by auto
    ultimately show ?thesis by (simp add: combinedTokenUsage_totalIsSum)
  qed
qed

lemma fold_lines_acc:
  assumes "\<And>l a w. Q a \<Longrightarrow> Q (fst (step l a w))"
  shows "Q (fst st) \<Longrightarrow> Q (fst (fold (\<lambda>line (a, w'). step line a w') chunk st))"
proof (induction chunk arbitrary: st)
  case Nil
  then show ?case by simp
next
  case (Cons l ls)
  show ?case
    by (cases st) (use Cons assms in auto)
qed

lemma readStream_acc:
  assumes "\<And>l a w. Q a \<Longrightarrow> Q (fst (step l a w))" and "Q acc"
  shows "Q (fst (readStream step chunks acc w))"
proof -
  have "Q (fst st) \<Longrightarrow>
        Q (fst (fold (\<lambda>chunk st. fold (\<lambda>line (a, w'). step line a w') chunk st) chunks st))" for st
  proof (induction chunks arbitrary: st)
    case Nil
    then show ?case by simp
  next
    case (Cons c cs)
    show ?case using Cons.prems by (simp add: Cons.IH fold_lines_acc [of Q step, OF assms(1)])
  qed
  from this [of "(acc, w)"] assms(2) show ?thesis by (simp add: readStream_def)
qed

lemma ollama_line_totalIsSum:
  "totalIsSum (snd a) \<Longrightarrow> totalIsSum (snd (fst (ollama_line l a w)))"
  by (auto simp: ollama_line_def totalIsSum_def case_prod_unfold Let_def split: JSONLine.splits)

lemma anthropic_makeApiCall_totalIsSum:
  "fst (anthropic_makeApiCall env config tools onChunk msgs w) = Inr r \<Longrightarrow>
     totalIsSum (res_tokenUsage r)"
  by (auto simp: anthropic_makeApiCall_def anthropic_parse_def bindM_def fetchM_def liftM_def
        throwM_def returnM_def totalIsSum_def case_prod_unfold Let_def
      split: sum.splits option.splits bool.splits if_splits)

lemma ollama_stream_totalIsSum:
  "totalIsSum (snd (fst (readStream ollama_line chunks ([], None) w)))"
  by (rule readStream_acc [of "\<lambda>a. totalIsSum (snd a)" ollama_line "([], None)",
             OF ollama_line_totalIsSum])
     (simp_all add: totalIsSum_def)

lemma ollama_parse_totalIsSum: "totalIsSum (res_tokenUsage (ollama_parse env data))"
  by (simp add: ollama_parse_def totalIsSum_def Let_def)

lemma ollama_makeApiCall_totalIsSum:
  "fst (ollama_makeApiCall env config tools onChunk msgs w) = Inr r \<Longrightarrow>
     totalIsSum (res_tokenUsage r)"
  by (auto simp: ollama_makeApiCall_def bindM_def fetchM_def liftM_def
        throwM_def returnM_def case_prod_unfold Let_def ollama_stream_totalIsSum
        ollama_parse_totalIsSum
      split: sum.splits option.splits bool.splits if_splits)

lemma callAnthropic_totalIsSum:
  "fst (callAnthropic env messages config tools onChunk onToolCall onToolResult w) = Inr r \<Longrightarrow>
     totalIsSum (res_tokenUsage r)"
  by (cases "truthy (apiKey config)")
     (auto simp: callAnthropic_def throwM_def
           intro: toolRound_totalIsSum [where mk = "anthropic_makeApiCall env config tools onChunk"]
                  anthropic_makeApiCall_totalIsSum)

lemma callOllama_totalIsSum:
  "fst (callOllama env messages config tools onChunk w) = Inr r \<Longrightarrow>
     totalIsSum (res_tokenUsage r)"
  by (cases "ollama_supportsTools config tools")
     (auto simp: callOllama_def
           intro: toolRound_totalIsSum [where mk = "ollama_makeApiCall env config tools onChunk"]
                  ollama_makeApiCall_totalIsSum)

lemma createApiCall_result:
  assumes "getProviderForModel (cfg_model config) = Some provider"
      and "fst (createApiCall env messages config tools onChunk onToolCall onToolResult w) = Inr cr"
  shows "\<exists>r. fst ((case provider of
                     Openai \<Rightarrow> callOpenAI env messages (mergedConfig config (getProviderConfigs env provider)) tools onChunk onToolCall onToolResult
                   | Anthropic \<Rightarrow>
                       callAnthropic env messages (mergedConfig config (getProviderConfigs env provider)) tools onChunk onToolCall onToolResult
                   | Google \<Rightarrow> callGoogle env messages (mergedConfig config (getProviderConfigs env provider)) tools onChunk onToolCall onToolResult
                   | Ollama \<Rightarrow> callOllama env messages (mergedConfig config (getProviderConfigs env provider)) tools onChunk)
                  (w\<lparr>dateCount := Suc (dateCount w)\<rparr>)) = Inr r \<and>
             md_tokenUsage (cr_metadata cr) = res_tokenUsage r \<and> cr_content cr = res_content r"
  using assms
  by (auto simp: createApiCall_def Let_def split: prod.splits sum.splits)

lemma callOpenAI_credential:
  "list_all (carriesCredential Openai config)
     (requestsSent w (callOpenAI env messages config tools onChunk onToolCall onToolResult w))"
proof (cases "truthy (apiKey config)")
  case True
  have "\<exists>rs. fetchLog (snd (openAI_makeApiCall env config tools onChunk msgs w)) = fetchLog w @ rs
            \<and> list_all (carriesCredential Openai config) rs" for msgs w
    by (simp add: openAI_makeApiCall_fetchLog openAI_request_def carriesCredential_def Let_def)
  then show ?thesis using True by (simp add: callOpenAI_def toolRound_requestsSent)
next
  case False
  then show ?thesis by (simp add: callOpenAI_def throwM_def requestsSent_def)
qed

lemma callAnthropic_credential:
  "list_all (carriesCredential Anthropic config)
     (requestsSent w (callAnthropic env messages config tools onChunk onToolCall onToolResult w))"
proof (cases "truthy (apiKey config)")
  case True
  have "\<exists>rs. fetchLog (snd (anthropic_makeApiCall env config tools onChunk msgs w)) = fetchLog w @ rs
            \<and> list_all (carriesCredential Anthropic config) rs" for msgs w
    by (simp add: anthropic_makeApiCall_fetchLog anthropic_request_def carriesCredential_def Let_def)
  then show ?thesis using True by (simp add: callAnthropic_def toolRound_requestsSent)
next
  case False
  then show ?thesis by (simp add: callAnthropic_def throwM_def requestsSent_def)
qed

lemma callGoogle_credential:
  "list_all (carriesCredential Google config)
     (requestsSent w (callGoogle env messages config tools onChunk onToolCall onToolResult w))"
proof (cases "truthy (apiKey config)")
  case True
  have "\<exists>rs. fetchLog (snd (google_makeApiCall env config tools onChunk msgs w)) = fetchLog w @ rs
            \<and> list_all (carriesCredential Google config) rs" for msgs w
    using google_makeApiCall_fetchLog [of env config tools onChunk msgs w]
    by (auto simp: google_request_def carriesCredential_def Let_def)
  then show ?thesis using True by (simp add: callGoogle_def toolRound_requestsSent)
next
  case False
  then show ?thesis by (simp add: callGoogle_def throwM_def requestsSent_def)
qed

lemma callOllama_credential:
  "list_all (carriesCredential Ollama config)
     (requestsSent w (callOllama env messages config tools onChunk w))"
proof -
  have "\<exists>rs. fetchLog (snd (ollama_makeApiCall env config tools onChunk msgs w)) = fetchLog w @ rs
            \<and> list_all (carriesCredential Ollama config) rs" for msgs w
    by (simp add: ollama_makeApiCall_fetchLog ollama_request_def carriesCredential_def Let_def)
  then have "list_all (carriesCredential Ollama config)
     (requestsSent w (toolRound env (ollama_makeApiCall env config tools onChunk) tools False False
                        messages w))"
    by (rule toolRound_requestsSent)
  then show ?thesis
    by (cases "ollama_supportsTools config tools")
       (simp_all add: callOllama_def,
        simp add: requestsSent_def ollama_makeApiCall_fetchLog ollama_request_def
          carriesCredential_def Let_def)
qed

lemma createApiCall_requestsSent:
  assumes "getProviderForModel (cfg_model config) = Some provider"
  shows "requestsSent w (createApiCall env messages config tools onChunk onToolCall onToolResult w)
    = requestsSent (w\<lparr>dateCount := Suc (dateCount w)\<rparr>)
       ((case provider of
           Openai \<Rightarrow> callOpenAI env messages (mergedConfig config (getProviderConfigs env provider)) tools onChunk onToolCall onToolResult
         | Anthropic \<Rightarrow> callAnthropic env messages (mergedConfig config (getProviderConfigs env provider)) tools onChunk onToolCall onToolResult
         | Google \<Rightarrow> callGoogle env messages (mergedConfig config (getProviderConfigs env provider)) tools onChunk onToolCall onToolResult
         | Ollama \<Rightarrow> callOllama env messages (mergedConfig config (getProviderConfigs env provider)) tools onChunk)
        (w\<lparr>dateCount := Suc (dateCount w)\<rparr>))"
  using assms
  by (auto simp: createApiCall_def requestsSent_def Let_def split: prod.splits sum.splits)

section \<open>Claims about the cost calculator\<close>

text \<open>
  Claim C4: for every token-usage record and every model id present in the registry,
  \<open>calculateCost\<close> returns (inputTokens / 1,000,000 \<times> the model's input rate) +
  (outputTokens / 1,000,000 \<times> the model's output rate). The model of an id is the one
  \<open>getModelInfo\<close> returns. The witness is Scenario A: model gpt-4o-mini with usage
  10 input and 1 output tokens costs (10/1e6)*0.15 + (1/1e6)*0.6.
\<close>

theorem calculateCost_registry_formula:
  assumes "getModelInfo modelId = Some m"
  shows "calculateCost u modelId =
           (inputTokens u / 1000000) * cost_input (cost m) +
           (outputTokens u / 1000000) * cost_output (cost m)"
proof -
  from assms obtain p where p: "getProviderForModel modelId = Some p"
      and f: "find (\<lambda>m. model_id m = modelId) (MODELS p) = Some m"
    unfolding getModelInfo_def getProviderForModel_def
    by (blast dest: getModelLoop_provider)
  show ?thesis
    by (simp add: calculateCost_def p f Let_def)
qed

theorem calculateCost_registry_formula_witness:
  "getModelInfo ''gpt-4o-mini'' =
     Some (mkModel ''gpt-4o-mini'' ''GPT-4o Mini'' Openai True 0.15 0.6) \<and>
   calculateCost \<lparr>inputTokens = 10, outputTokens = 1, totalTokens = 11\<rparr> ''gpt-4o-mini'' =
     (10 / 1000000) * 0.15 + (1 / 1000000) * 0.6"
proof -
  have h: "getModelInfo ''gpt-4o-mini'' =
             Some (mkModel ''gpt-4o-mini'' ''GPT-4o Mini'' Openai True 0.15 0.6)"
    by (simp add: getModelInfo_def MODELS_keys_def mkModel_def)
  show ?thesis
    using h calculateCost_registry_formula
              [OF h, of "\<lparr>inputTokens = 10, outputTokens = 1, totalTokens = 11\<rparr>"]
    by (simp add: mkModel_def)
qed



text \<open>
  Claim C9: for a fixed model id, \<open>calculateCost\<close> is monotonic in usage: more input
  tokens and more output tokens never cost less. Every rate of the registry is
  non-negative, which is all the proof needs; the token counts themselves need not be
  non-negative.
\<close>

theorem calculateCost_monotonic:
  assumes "inputTokens u1 \<le> inputTokens u2" and "outputTokens u1 \<le> outputTokens u2"
  shows "calculateCost u1 modelId \<le> calculateCost u2 modelId"
proof (cases "getProviderForModel modelId")
  case None
  then show ?thesis by (simp add: calculateCost_def)
next
  case (Some p)
  then obtain m where f: "find (\<lambda>m. model_id m = modelId) (MODELS p) = Some m"
    by (blast dest: getProviderForModel_found)
  then have "m \<in> set (MODELS p)" by (rule find_in_set)
  then have nn: "0 \<le> cost_input (cost m)" "0 \<le> cost_output (cost m)"
    using MODELS_rates_nonneg by blast+
  have "inputTokens u1 / 1000000 * cost_input (cost m)
          \<le> inputTokens u2 / 1000000 * cost_input (cost m)"
    using assms(1) nn(1) by (intro mult_right_mono divide_right_mono) simp_all
  moreover have "outputTokens u1 / 1000000 * cost_output (cost m)
          \<le> outputTokens u2 / 1000000 * cost_output (cost m)"
    using assms(2) nn(2) by (intro mult_right_mono divide_right_mono) simp_all
  ultimately show ?thesis
    by (simp add: calculateCost_def Some f Let_def)
qed

theorem calculateCost_monotonic_witness:
  "inputTokens \<lparr>inputTokens = 10, outputTokens = 1, totalTokens = 11\<rparr>
     \<le> inputTokens \<lparr>inputTokens = 20, outputTokens = 5, totalTokens = 25\<rparr> \<and>
   outputTokens \<lparr>inputTokens = 10, outputTokens = 1, totalTokens = 11\<rparr>
     \<le> outputTokens \<lparr>inputTokens = 20, outputTokens = 5, totalTokens = 25\<rparr> \<and>
   calculateCost \<lparr>inputTokens = 10, outputTokens = 1, totalTokens = 11\<rparr> ''gpt-4.1''
     \<le> calculateCost \<lparr>inputTokens = 20, outputTokens = 5, totalTokens = 25\<rparr> ''gpt-4.1''"
  using calculateCost_monotonic
          [of "\<lparr>inputTokens = 10, outputTokens = 1, totalTokens = 11\<rparr>"
              "\<lparr>inputTokens = 20, outputTokens = 5, totalTokens = 25\<rparr>" "''gpt-4.1''"]
  by simp

section \<open>Claims about the call layer\<close>

text \<open>
  Claim C1 (as amended): whenever the tools list is non-empty, every request the OpenAI
  and Anthropic adapters issue has \<open>stream\<close> false, and every request the Google
  adapter issues goes to the \<open>generateContent\<close> endpoint, whatever the messages, the
  config and the \<open>onChunk\<close> callback. The Ollama adapter does the same when the
  registry entry of the model declares tool support (\<open>ollama_supportsTools\<close>, which
  also asks for a non-empty tools list); for a model without tool support it sends no
  tools at all and streams exactly when \<open>onChunk\<close> is supplied.
\<close>

theorem tools_disable_streaming:
  assumes "tools \<noteq> []"
  shows
   "list_all (\<lambda>r. req_stream r = Some False)
      (requestsSent w (callOpenAI env messages config tools onChunk onToolCall onToolResult w)) \<and>
    list_all (\<lambda>r. req_stream r = Some False)
      (requestsSent w (callAnthropic env messages config tools onChunk onToolCall onToolResult w)) \<and>
    list_all (\<lambda>r. req_url r = google_url config ''generateContent'')
      (requestsSent w (callGoogle env messages config tools onChunk onToolCall onToolResult w)) \<and>
    (ollama_supportsTools config tools \<longrightarrow>
       list_all (\<lambda>r. req_stream r = Some False \<and> req_tools r = Some (map tool_name tools))
         (requestsSent w (callOllama env messages config tools onChunk w))) \<and>
    (\<not> ollama_supportsTools config tools \<longrightarrow>
       requestsSent w (callOllama env messages config tools onChunk w)
         = [ollama_request config tools onChunk messages] \<and>
       req_stream (ollama_request config tools onChunk messages) = Some onChunk \<and>
       req_tools (ollama_request config tools onChunk messages) = None)"
  using assms callOpenAI_buffered callAnthropic_buffered callGoogle_buffered
    callOllama_buffered callOllama_plain
  by simp

text \<open>
  Stated for every adapter, the property fails: the Ollama adapter, given the model llama3.2
  (no tool support), one tool and an \<open>onChunk\<close> callback, sends a request whose
  \<open>stream\<close> flag is true.
\<close>

theorem tools_disable_streaming_counterexample:
  "[ex_tool] \<noteq> [] \<and>
   map req_stream
     (requestsSent ex_world
        (callOllama (ex_env ex_nothingStored) ex_messages (ex_config ''llama3.2'' None)
           [ex_tool] True ex_world)) = [Some True]"
  by code_simp

theorem tools_disable_streaming_witness:
  "[ex_tool] \<noteq> [] \<and>
   ollama_supportsTools (ex_config ''gemma3'' None) [ex_tool] \<and>
   map req_stream
     (requestsSent ex_world
        (callOpenAI (ex_env ex_nothingStored) ex_messages (ex_config ''gpt-4o-mini'' (Some ''x''))
           [ex_tool] True True True ex_world)) = [Some False, Some False] \<and>
   map req_stream
     (requestsSent ex_world
        (callOllama (ex_env ex_nothingStored) ex_messages (ex_config ''gemma3'' None)
           [ex_tool] True ex_world)) = [Some False, Some False] \<and>
   \<not> ollama_supportsTools (ex_config ''llama3.2'' None) [ex_tool] \<and>
   req_tools (ollama_request (ex_config ''llama3.2'' None) [ex_tool] True ex_messages) = None"
proof -
  have h1: "[ex_tool] \<noteq> []" by simp
  have h2: "ollama_supportsTools (ex_config ''gemma3'' None) [ex_tool]" by code_simp
  have h3: "\<not> ollama_supportsTools (ex_config ''llama3.2'' None) [ex_tool]" by code_simp
  have e1: "map req_stream
     (requestsSent ex_world
        (callOpenAI (ex_env ex_nothingStored) ex_messages (ex_config ''gpt-4o-mini'' (Some ''x''))
           [ex_tool] True True True ex_world)) = [Some False, Some False]" by code_simp
  have e2: "map req_stream
     (requestsSent ex_world
        (callOllama (ex_env ex_nothingStored) ex_messages (ex_config ''gemma3'' None)
           [ex_tool] True ex_world)) = [Some False, Some False]" by code_simp
  note t1 = tools_disable_streaming [OF h1, where config = "ex_config ''llama3.2'' None"
      and onChunk = True and messages = ex_messages]
  note t2 = tools_disable_streaming [OF h1, where config = "ex_config ''gemma3'' None"]
  from t1 h3
  have "req_tools (ollama_request (ex_config ''llama3.2'' None) [ex_tool] True ex_messages) = None"
    by blast
  then show ?thesis using h1 h2 h3 e1 e2 t2 by blast
qed

text \<open>
  Claim C3 (as amended): a call of a cloud adapter (OpenAI, Anthropic, Google) whose
  config has no API key, or an empty one, throws the adapter's "API key is required"
  error and leaves the world as it was: no request is issued and no callback runs. The
  Ollama adapter does not fail when the config has no base URL, whatever else the config
  holds: it falls back to \<open>http://localhost:11434\<close> and issues its request there.
\<close>

theorem missing_credential_fails_fast:
  "(\<not> truthy (apiKey config) \<longrightarrow>
      callOpenAI env messages config tools onChunk onToolCall onToolResult w
        = (Inl ''OpenAI API key is required'', w) \<and>
      callAnthropic env messages config tools onChunk onToolCall onToolResult w
        = (Inl ''Anthropic API key is required'', w) \<and>
      callGoogle env messages config tools onChunk onToolCall onToolResult w
        = (Inl ''Google API key is required'', w)) \<and>
   (\<not> truthy (baseUrl config) \<longrightarrow>
      (\<exists>rs. requestsSent w (callOllama env messages config tools onChunk w)
              = ollama_request config tools onChunk messages # rs) \<and>
      req_url (ollama_request config tools onChunk messages)
        = ''http://localhost:11434/api/chat'')"
  using callOllama_default_baseUrl
  by (simp add: callOpenAI_def callAnthropic_def callGoogle_def throwM_def)

theorem missing_credential_fails_fast_witness:
  "\<not> truthy (apiKey (ex_config ''gpt-4o-mini'' None)) \<and>
   callOpenAI (ex_env ex_nothingStored) ex_messages (ex_config ''gpt-4o-mini'' None) [] True True True
      ex_world = (Inl ''OpenAI API key is required'', ex_world) \<and>
   fetchLog ex_world = [] \<and>
   truthy (apiKey (ex_config ''llama3.2'' (Some ''sk-openai-leftover''))) \<and>
   \<not> truthy (baseUrl (ex_config ''llama3.2'' (Some ''sk-openai-leftover''))) \<and>
   req_url (ollama_request (ex_config ''llama3.2'' (Some ''sk-openai-leftover'')) [] True ex_messages)
     = ''http://localhost:11434/api/chat''"
proof -
  have h: "\<not> truthy (apiKey (ex_config ''gpt-4o-mini'' None))" by code_simp
  have h2: "\<not> truthy (baseUrl (ex_config ''llama3.2'' (Some ''sk-openai-leftover'')))"
    by code_simp
  have h3: "fetchLog ex_world = []" by code_simp
  have h4: "truthy (apiKey (ex_config ''llama3.2'' (Some ''sk-openai-leftover'')))" by code_simp
  note t1 = missing_credential_fails_fast
              [where config = "ex_config ''gpt-4o-mini'' None" and env = "ex_env ex_nothingStored"
                 and messages = ex_messages and tools = "[]" and onChunk = True
                 and onToolCall = True and onToolResult = True and w = ex_world]
  note t2 = missing_credential_fails_fast
              [where config = "ex_config ''llama3.2'' (Some ''sk-openai-leftover'')"
                 and tools = "[]" and onChunk = True and messages = ex_messages]
  from t1 h have a: "callOpenAI (ex_env ex_nothingStored) ex_messages
      (ex_config ''gpt-4o-mini'' None) [] True True True ex_world
        = (Inl ''OpenAI API key is required'', ex_world)"
    by blast
  from t2 h2 have b: "req_url (ollama_request (ex_config ''llama3.2'' (Some ''sk-openai-leftover''))
      [] True ex_messages) = ''http://localhost:11434/api/chat''"
    by blast
  from h a h3 h4 h2 b show ?thesis by blast
qed

text \<open>
  The Ollama adapter called without a base URL returns normally, after a request to the
  default address.
\<close>

theorem missing_credential_fails_fast_counterexample:
  "baseUrl (ex_config ''llama3.2'' None) = None \<and>
   callOllama (ex_env ex_nothingStored) ex_messages (ex_config ''llama3.2'' None) [] True ex_world
     = (Inr \<lparr>res_content = ''It is 20 C'', res_tokenUsage = None, res_toolCalls = None\<rparr>,
        ex_world\<lparr>fetchLog := [ollama_request (ex_config ''llama3.2'' None) [] True ex_messages],
                  events := [ChunkEvent ''It is '', ChunkEvent ''20 C'']\<rparr>) \<and>
   req_url (ollama_request (ex_config ''llama3.2'' None) [] True ex_messages)
     = ''http://localhost:11434/api/chat''"
  by code_simp

text \<open>
  Claim C5: when the tool round is performed (the first round asks for at least one tool
  and the second round returns), the usage returned is the field-wise sum of the usage
  of the two rounds; when exactly one round reports usage, that usage is returned
  unchanged; when neither does, the result carries no usage. The second round is the
  call of \<open>makeApiCall\<close> on the working history, in the world the tool loop leaves.
  The four adapters run \<open>toolRound\<close> with their own \<open>makeApiCall\<close>.
\<close>

theorem tool_round_usage_summed:
  assumes "fst (makeApiCall messages w) = Inr initialResult"
      and "res_toolCalls initialResult = Some calls" and "calls \<noteq> []"
      and "fst (toolRound env makeApiCall tools onToolCall onToolResult messages w) = Inr result"
  shows "\<exists>finalResult.
           fst (makeApiCall
                 (fst (workingHistory env tools onToolCall onToolResult messages initialResult
                         calls (snd (makeApiCall messages w))))
                 (snd (workingHistory env tools onToolCall onToolResult messages initialResult
                         calls (snd (makeApiCall messages w))))) = Inr finalResult \<and>
           res_tokenUsage result =
             (case res_tokenUsage initialResult of
                Some i \<Rightarrow>
                  (case res_tokenUsage finalResult of
                     Some f \<Rightarrow>
                       Some \<lparr>inputTokens = inputTokens i + inputTokens f,
                             outputTokens = outputTokens i + outputTokens f,
                             totalTokens = totalTokens i + totalTokens f\<rparr>
                   | None \<Rightarrow> Some i)
              | None \<Rightarrow> res_tokenUsage finalResult)"
proof -
  define h where
    "h = workingHistory env tools onToolCall onToolResult messages initialResult calls
           (snd (makeApiCall messages w))"
  have u: "toolRound env makeApiCall tools onToolCall onToolResult messages w =
      (case makeApiCall (fst h) (snd h) of
          (Inl e, w4) \<Rightarrow> (Inl e, w4)
        | (Inr finalResult, w4) \<Rightarrow>
            (Inr \<lparr>res_content = res_content finalResult,
                  res_tokenUsage = combinedTokenUsage (res_tokenUsage initialResult)
                                     (res_tokenUsage finalResult),
                  res_toolCalls = Some calls\<rparr>, w4))"
    using toolRound_unfold [where mk = makeApiCall and msgs = messages and w = w,
            OF assms(1,2,3), of env tools onToolCall onToolResult]
    by (simp add: h_def Let_def)
  obtain r w4 where f: "makeApiCall (fst h) (snd h) = (r, w4)"
    by (cases "makeApiCall (fst h) (snd h)")
  show ?thesis
  proof (cases r)
    case (Inl e)
    with u f assms(4) show ?thesis by simp
  next
    case (Inr finalResult)
    with u f assms(4)
    have "res_tokenUsage result =
            combinedTokenUsage (res_tokenUsage initialResult) (res_tokenUsage finalResult)"
      by auto
    then have "res_tokenUsage result =
             (case res_tokenUsage initialResult of
                Some i \<Rightarrow>
                  (case res_tokenUsage finalResult of
                     Some f \<Rightarrow>
                       Some \<lparr>inputTokens = inputTokens i + inputTokens f,
                             outputTokens = outputTokens i + outputTokens f,
                             totalTokens = totalTokens i + totalTokens f\<rparr>
                   | None \<Rightarrow> Some i)
              | None \<Rightarrow> res_tokenUsage finalResult)"
      by (simp add: combinedTokenUsage_def split: option.splits)
    with Inr f show ?thesis unfolding h_def by simp
  qed
qed

theorem tool_round_usage_summed_witness:
  "fst (ex_anthropicRound ex_messages ex_world) =
     Inr \<lparr>res_content = [],
          res_tokenUsage = Some \<lparr>inputTokens = 10, outputTokens = 1, totalTokens = 11\<rparr>,
          res_toolCalls = Some [ex_toolCall ''toolu_1'']\<rparr> \<and>
   [ex_toolCall ''toolu_1''] \<noteq> [] \<and>
   fst (toolRound (ex_env ex_nothingStored) ex_anthropicRound [ex_tool] True True ex_messages
          ex_world) =
     Inr \<lparr>res_content = ''It is 20 C'',
          res_tokenUsage = Some \<lparr>inputTokens = 40, outputTokens = 6, totalTokens = 46\<rparr>,
          res_toolCalls = Some [ex_toolCall ''toolu_1'']\<rparr> \<and>
   callAnthropic (ex_env ex_nothingStored) ex_messages ex_anthropicConfig [ex_tool] True True
     True ex_world =
     toolRound (ex_env ex_nothingStored) ex_anthropicRound [ex_tool] True True ex_messages
       ex_world \<and>
   (\<exists>finalResult :: ApiResult.
      res_tokenUsage finalResult =
        Some \<lparr>inputTokens = 30, outputTokens = 5, totalTokens = 35\<rparr> \<and>
      Some \<lparr>inputTokens = 40, outputTokens = 6, totalTokens = 46\<rparr> =
        Some \<lparr>inputTokens = 10 + inputTokens (the (res_tokenUsage finalResult)),
              outputTokens = 1 + outputTokens (the (res_tokenUsage finalResult)),
              totalTokens = 11 + totalTokens (the (res_tokenUsage finalResult))\<rparr>)"
proof -
  let ?I = "\<lparr>res_content = [],
          res_tokenUsage = Some \<lparr>inputTokens = 10, outputTokens = 1, totalTokens = 11\<rparr>,
          res_toolCalls = Some [ex_toolCall ''toolu_1'']\<rparr>"
  let ?R = "\<lparr>res_content = ''It is 20 C'',
          res_tokenUsage = Some \<lparr>inputTokens = 40, outputTokens = 6, totalTokens = 46\<rparr>,
          res_toolCalls = Some [ex_toolCall ''toolu_1'']\<rparr>"
  let ?h = "workingHistory (ex_env ex_nothingStored) [ex_tool] True True ex_messages ?I
              [ex_toolCall ''toolu_1''] (snd (ex_anthropicRound ex_messages ex_world))"
  have h1: "fst (ex_anthropicRound ex_messages ex_world) = Inr ?I" by code_simp
  have h2: "res_toolCalls ?I = Some [ex_toolCall ''toolu_1'']" by simp
  have h3: "[ex_toolCall ''toolu_1''] \<noteq> []" by simp
  have h4: "fst (toolRound (ex_env ex_nothingStored) ex_anthropicRound [ex_tool] True True
                  ex_messages ex_world) = Inr ?R" by code_simp
  have h5: "callAnthropic (ex_env ex_nothingStored) ex_messages ex_anthropicConfig [ex_tool]
              True True True ex_world =
            toolRound (ex_env ex_nothingStored) ex_anthropicRound [ex_tool] True True
              ex_messages ex_world"
    by (simp add: callAnthropic_def ex_anthropicRound_def ex_anthropicConfig_def ex_config_def
          truthy_def)
  have g: "fst (ex_anthropicRound (fst ?h) (snd ?h)) =
             Inr \<lparr>res_content = ''It is 20 C'',
                  res_tokenUsage = Some \<lparr>inputTokens = 30, outputTokens = 5, totalTokens = 35\<rparr>,
                  res_toolCalls = None\<rparr>"
    by code_simp
  from tool_round_usage_summed [where makeApiCall = ex_anthropicRound and messages = ex_messages
      and w = ex_world, OF h1 h2 h3 h4]
  obtain finalResult where f: "fst (ex_anthropicRound (fst ?h) (snd ?h)) = Inr finalResult"
    by blast
  from f [unfolded g] have fr: "res_tokenUsage finalResult =
        Some \<lparr>inputTokens = 30, outputTokens = 5, totalTokens = 35\<rparr>"
    by auto
  then have su: "Some \<lparr>inputTokens = 40, outputTokens = 6, totalTokens = 46\<rparr> =
        Some \<lparr>inputTokens = 10 + inputTokens (the (res_tokenUsage finalResult)),
              outputTokens = 1 + outputTokens (the (res_tokenUsage finalResult)),
              totalTokens = 11 + totalTokens (the (res_tokenUsage finalResult))\<rparr>"
    by simp
  have "\<exists>finalResult :: ApiResult.
      res_tokenUsage finalResult =
        Some \<lparr>inputTokens = 30, outputTokens = 5, totalTokens = 35\<rparr> \<and>
      Some \<lparr>inputTokens = 40, outputTokens = 6, totalTokens = 46\<rparr> =
        Some \<lparr>inputTokens = 10 + inputTokens (the (res_tokenUsage finalResult)),
              outputTokens = 1 + outputTokens (the (res_tokenUsage finalResult)),
              totalTokens = 11 + totalTokens (the (res_tokenUsage finalResult))\<rparr>"
    using fr su by blast
  with h1 h3 h4 h5 show ?thesis by blast
qed

text \<open>
  Claim C2 (as amended): if, during the tool round, the code of the tool named by a tool
  call throws an \<open>Error\<close> with message \<open>m\<close>, the call does not abort there: the
  working history gets a \<open>tool\<close>-role message that refers to the id of the tool call
  and whose content is \<open>Error: Tool execution failed: \<close> followed by \<open>m\<close>
  (\<open>executeTool\<close> wraps the message before the tool loop prefixes it), and the
  adapter's request round is run exactly once more, on that history. The call returns
  the content of that second round when it succeeds, and its error otherwise. The
  statement is for an adapter whose \<open>makeApiCall\<close> issues one request per round
  (lemmas \<open>openAI_makeApiCall_fetchLog\<close>, \<open>anthropic_makeApiCall_fetchLog\<close>,
  \<open>ollama_makeApiCall_fetchLog\<close>); the Google adapter, which parses the content of
  tool messages while it builds the request, is left out.
\<close>

theorem tool_error_fed_back:
  assumes first: "fst (makeApiCall messages w) = Inr initialResult"
      and calls: "res_toolCalls initialResult = Some calls"
      and i: "i < length calls"
      and found: "find (\<lambda>t. tool_name t = tc_name (calls ! i)) tools = Some tool"
      and throws: "tool_code tool (tc_arguments (calls ! i)) = ThrowsError m"
      and logs: "\<And>msgs w'. fetchLog (snd (makeApiCall msgs w')) = fetchLog w' @ [request msgs]"
  shows "\<exists>assistantMessage toolMessages w2.
           workingHistory env tools onToolCall onToolResult messages initialResult calls
               (snd (makeApiCall messages w))
             = (messages @ assistantMessage # toolMessages, w2) \<and>
           role assistantMessage = Assistant \<and>
           toolCalls assistantMessage = Some calls \<and>
           length toolMessages = length calls \<and>
           role (toolMessages ! i) = ToolRole \<and>
           toolCallId (toolMessages ! i) = Some (tc_id (calls ! i)) \<and>
           content (toolMessages ! i) = ''Error: Tool execution failed: '' @ m \<and>
           requestsSent w (toolRound env makeApiCall tools onToolCall onToolResult messages w)
             = [request messages, request (messages @ assistantMessage # toolMessages)] \<and>
           fst (toolRound env makeApiCall tools onToolCall onToolResult messages w)
             = (case fst (makeApiCall (messages @ assistantMessage # toolMessages) w2) of
                  Inl e \<Rightarrow> Inl e
                | Inr finalResult \<Rightarrow>
                    Inr \<lparr>res_content = res_content finalResult,
                         res_tokenUsage = combinedTokenUsage (res_tokenUsage initialResult)
                                            (res_tokenUsage finalResult),
                         res_toolCalls = Some calls\<rparr>)"
proof -
  define h where
    "h = workingHistory env tools onToolCall onToolResult messages initialResult calls
           (snd (makeApiCall messages w))"
  from i have ne: "calls \<noteq> []" by auto
  from workingHistory_messages [of env tools onToolCall onToolResult messages initialResult calls
         "snd (makeApiCall messages w)"]
  obtain am tms where hist: "fst h = messages @ am # tms"
      and am: "role am = Assistant" "toolCalls am = Some calls"
      and len: "length tms = length calls"
      and each: "\<forall>j<length calls.
         role (tms ! j) = ToolRole \<and>
         toolCallId (tms ! j) = Some (tc_id (calls ! j)) \<and>
         content (tms ! j) =
           (case runToolCall tools (calls ! j) of
              Inr result \<Rightarrow> jsonStringify env result
            | Inl errorMessage \<Rightarrow> ''Error: '' @ errorMessage)"
    unfolding h_def by blast
  have run: "runToolCall tools (calls ! i) = Inl (''Tool execution failed: '' @ m)"
    using found throws by (simp add: runToolCall_def executeTool_def)
  from each i run have msg: "role (tms ! i) = ToolRole"
      "toolCallId (tms ! i) = Some (tc_id (calls ! i))"
      "content (tms ! i) = ''Error: Tool execution failed: '' @ m"
    by auto
  have hp: "h = (messages @ am # tms, snd h)"
    using hist by (cases h) simp
  have u: "toolRound env makeApiCall tools onToolCall onToolResult messages w =
      (case makeApiCall (fst h) (snd h) of
          (Inl e, w4) \<Rightarrow> (Inl e, w4)
        | (Inr finalResult, w4) \<Rightarrow>
            (Inr \<lparr>res_content = res_content finalResult,
                  res_tokenUsage = combinedTokenUsage (res_tokenUsage initialResult)
                                     (res_tokenUsage finalResult),
                  res_toolCalls = Some calls\<rparr>, w4))"
    using toolRound_unfold [where mk = makeApiCall and msgs = messages and w = w,
            OF first calls ne, of env tools onToolCall onToolResult]
    by (simp add: h_def Let_def)
  have res: "fst (toolRound env makeApiCall tools onToolCall onToolResult messages w)
             = (case fst (makeApiCall (messages @ am # tms) (snd h)) of
                  Inl e \<Rightarrow> Inl e
                | Inr finalResult \<Rightarrow>
                    Inr \<lparr>res_content = res_content finalResult,
                         res_tokenUsage = combinedTokenUsage (res_tokenUsage initialResult)
                                            (res_tokenUsage finalResult),
                         res_toolCalls = Some calls\<rparr>)"
    unfolding u hist by (cases "makeApiCall (messages @ am # tms) (snd h)") (simp split: sum.splits)
  have "fetchLog (snd (toolRound env makeApiCall tools onToolCall onToolResult messages w))
          = fetchLog (snd (makeApiCall (fst h) (snd h)))"
    unfolding u by (simp split: prod.splits sum.splits)
  also have "\<dots> = fetchLog (snd h) @ [request (fst h)]" by (rule logs)
  also have "fetchLog (snd h) = fetchLog (snd (makeApiCall messages w))"
    by (simp add: h_def workingHistory_fetchLog)
  also have "\<dots> = fetchLog w @ [request messages]" by (rule logs)
  finally have sent: "requestsSent w (toolRound env makeApiCall tools onToolCall onToolResult messages w)
             = [request messages, request (messages @ am # tms)]"
    by (simp add: requestsSent_def hist)
  from hp am len msg sent res show ?thesis
    unfolding h_def by blast
qed

theorem tool_error_fed_back_witness:
  "fst (ex_openAIRound ex_messages ex_world) =
     Inr \<lparr>res_content = [],
          res_tokenUsage = Some \<lparr>inputTokens = 10, outputTokens = 1, totalTokens = 99\<rparr>,
          res_toolCalls = Some [ex_toolCall ''call_1'']\<rparr> \<and>
   (0::nat) < length [ex_toolCall ''call_1''] \<and>
   find (\<lambda>t. tool_name t = tc_name ([ex_toolCall ''call_1''] ! 0)) [ex_failingTool]
     = Some ex_failingTool \<and>
   tool_code ex_failingTool (tc_arguments ([ex_toolCall ''call_1''] ! 0))
     = ThrowsError ''network down'' \<and>
   (\<exists>assistantMessage toolMessages.
      content (toolMessages ! 0) = ''Error: Tool execution failed: '' @ ''network down'' \<and>
      toolCallId (toolMessages ! 0) = Some (tc_id ([ex_toolCall ''call_1''] ! 0)) \<and>
      requestsSent ex_world
        (toolRound (ex_env ex_nothingStored) ex_openAIRound [ex_failingTool] True True
           ex_messages ex_world)
        = [openAI_request ex_openAIConfig [ex_failingTool] True ex_messages,
           openAI_request ex_openAIConfig [ex_failingTool] True
             (ex_messages @ assistantMessage # toolMessages)]) \<and>
   fst (callOpenAI (ex_env ex_nothingStored) ex_messages ex_openAIConfig [ex_failingTool]
          True True True ex_world)
     = Inr \<lparr>res_content = ''It is 20 C'',
            res_tokenUsage = Some \<lparr>inputTokens = 10, outputTokens = 1, totalTokens = 99\<rparr>,
            res_toolCalls = Some [ex_toolCall ''call_1'']\<rparr>"
proof -
  let ?I = "\<lparr>res_content = [],
          res_tokenUsage = Some \<lparr>inputTokens = 10, outputTokens = 1, totalTokens = 99\<rparr>,
          res_toolCalls = Some [ex_toolCall ''call_1'']\<rparr>"
  have h1: "fst (ex_openAIRound ex_messages ex_world) = Inr ?I" by code_simp
  have h2: "res_toolCalls ?I = Some [ex_toolCall ''call_1'']" by simp
  have h3: "(0::nat) < length [ex_toolCall ''call_1'']" by simp
  have h4: "find (\<lambda>t. tool_name t = tc_name ([ex_toolCall ''call_1''] ! 0)) [ex_failingTool]
              = Some ex_failingTool"
    by (simp add: ex_toolCall_def ex_failingTool_def)
  have h5: "tool_code ex_failingTool (tc_arguments ([ex_toolCall ''call_1''] ! 0))
              = ThrowsError ''network down''"
    by (simp add: ex_failingTool_def)
  have h6: "fetchLog (snd (ex_openAIRound msgs w')) =
              fetchLog w' @ [openAI_request ex_openAIConfig [ex_failingTool] True msgs]" for msgs w'
    by (simp add: ex_openAIRound_def openAI_makeApiCall_fetchLog)
  have h7: "fst (callOpenAI (ex_env ex_nothingStored) ex_messages ex_openAIConfig [ex_failingTool]
          True True True ex_world)
     = Inr \<lparr>res_content = ''It is 20 C'',
            res_tokenUsage = Some \<lparr>inputTokens = 10, outputTokens = 1, totalTokens = 99\<rparr>,
            res_toolCalls = Some [ex_toolCall ''call_1'']\<rparr>" by code_simp
  from tool_error_fed_back [where makeApiCall = ex_openAIRound and messages = ex_messages
      and w = ex_world and env = "ex_env ex_nothingStored" and onToolCall = True
      and onToolResult = True, OF h1 h2 h3 h4 h5 h6]
  have "\<exists>assistantMessage toolMessages.
      content (toolMessages ! 0) = ''Error: Tool execution failed: '' @ ''network down'' \<and>
      toolCallId (toolMessages ! 0) = Some (tc_id ([ex_toolCall ''call_1''] ! 0)) \<and>
      requestsSent ex_world
        (toolRound (ex_env ex_nothingStored) ex_openAIRound [ex_failingTool] True True
           ex_messages ex_world)
        = [openAI_request ex_openAIConfig [ex_failingTool] True ex_messages,
           openAI_request ex_openAIConfig [ex_failingTool] True
             (ex_messages @ assistantMessage # toolMessages)]"
    by blast
  with h1 h3 h4 h5 h7 show ?thesis by blast
qed

text \<open>
  The content of the tool message is not \<open>Error: network down\<close> for a tool that
  throws \<open>network down\<close>: the second OpenAI request of the example carries
  \<open>Error: Tool execution failed: network down\<close>.
\<close>

theorem tool_error_fed_back_counterexample:
  "tool_code ex_failingTool (tc_arguments (ex_toolCall ''call_1'')) = ThrowsError ''network down'' \<and>
   map role
     (req_messages
        (requestsSent ex_world
           (callOpenAI (ex_env ex_nothingStored) ex_messages ex_openAIConfig [ex_failingTool]
              True True True ex_world) ! 1))
     = [User, Assistant, ToolRole] \<and>
   map toolCallId
     (req_messages
        (requestsSent ex_world
           (callOpenAI (ex_env ex_nothingStored) ex_messages ex_openAIConfig [ex_failingTool]
              True True True ex_world) ! 1))
     = [None, None, Some ''call_1''] \<and>
   map content
     (req_messages
        (requestsSent ex_world
           (callOpenAI (ex_env ex_nothingStored) ex_messages ex_openAIConfig [ex_failingTool]
              True True True ex_world) ! 1))
     = [''Weather in Paris?'', [], ''Error: Tool execution failed: network down''] \<and>
   ''Error: Tool execution failed: network down'' \<noteq> ''Error: '' @ ''network down''"
  by code_simp

text \<open>
  In the example world the Google adapter does abort after the same tool failure: the
  content \<open>Error: Tool execution failed: network down\<close> is not JSON, so building the
  second request throws and only one request is issued. (The message of the
  \<open>SyntaxError\<close> is the model's own wording.)
\<close>

lemma google_tool_error_aborts_example:
  "fst (callGoogle (ex_env ex_nothingStored) ex_messages (ex_config ''gemini-2.0-flash'' (Some ''g''))
          [ex_failingTool] True True True ex_world)
     = Inl (''SyntaxError: '' @ ''Error: Tool execution failed: network down''
              @ '' is not valid JSON'') \<and>
   length (requestsSent ex_world
             (callGoogle (ex_env ex_nothingStored) ex_messages
                (ex_config ''gemini-2.0-flash'' (Some ''g'')) [ex_failingTool] True True True
                ex_world)) = 1"
  by code_simp

text \<open>
  Claim C6 (as amended): every usage record the Anthropic and the Ollama adapter return,
  and so every usage record the facade returns for these two providers, has
  totalTokens = inputTokens + outputTokens: both adapters compute the total from the two
  counts, and the sum of two rounds keeps the equation. The OpenAI and the Google
  adapter copy the total the vendor reports (\<open>total_tokens\<close>,
  \<open>totalTokenCount\<close>; 0 when it is missing or zero) next to the two counts, without
  comparing it with them.
\<close>

theorem usage_total_by_adapter:
  "(fst (callAnthropic env messages config tools onChunk onToolCall onToolResult w) = Inr r \<longrightarrow>
      totalIsSum (res_tokenUsage r)) \<and>
   (fst (callOllama env messages config tools onChunk w) = Inr r \<longrightarrow>
      totalIsSum (res_tokenUsage r)) \<and>
   ((getProviderForModel (cfg_model config) = Some Anthropic \<or>
     getProviderForModel (cfg_model config) = Some Ollama) \<and>
    fst (createApiCall env messages config tools onChunk onToolCall onToolResult w) = Inr cr \<longrightarrow>
      totalIsSum (md_tokenUsage (cr_metadata cr))) \<and>
   (oa_usage data = Some usage \<longrightarrow>
      res_tokenUsage (openAI_parse env data) =
        Some \<lparr>inputTokens = orZero (prompt_tokens usage),
              outputTokens = orZero (completion_tokens usage),
              totalTokens = orZero (total_tokens usage)\<rparr>) \<and>
   (go_usageMetadata gdata = Some gusage \<longrightarrow>
      (\<exists>gr. fst (google_parse env gdata w) = Inr gr \<and>
            res_tokenUsage gr =
              Some \<lparr>inputTokens = orZero (promptTokenCount gusage),
                    outputTokens = orZero (candidatesTokenCount gusage),
                    totalTokens = orZero (totalTokenCount gusage)\<rparr>))"
proof (intro conjI impI)
  assume "fst (callAnthropic env messages config tools onChunk onToolCall onToolResult w) = Inr r"
  then show "totalIsSum (res_tokenUsage r)" by (rule callAnthropic_totalIsSum)
next
  assume "fst (callOllama env messages config tools onChunk w) = Inr r"
  then show "totalIsSum (res_tokenUsage r)" by (rule callOllama_totalIsSum)
next
  assume a: "(getProviderForModel (cfg_model config) = Some Anthropic \<or>
     getProviderForModel (cfg_model config) = Some Ollama) \<and>
    fst (createApiCall env messages config tools onChunk onToolCall onToolResult w) = Inr cr"
  then show "totalIsSum (md_tokenUsage (cr_metadata cr))"
  proof (elim conjE disjE)
    assume p: "getProviderForModel (cfg_model config) = Some Anthropic"
       and c: "fst (createApiCall env messages config tools onChunk onToolCall onToolResult w) = Inr cr"
    from createApiCall_result [OF p c] show ?thesis
      by (auto dest: callAnthropic_totalIsSum)
  next
    assume p: "getProviderForModel (cfg_model config) = Some Ollama"
       and c: "fst (createApiCall env messages config tools onChunk onToolCall onToolResult w) = Inr cr"
    from createApiCall_result [OF p c] show ?thesis
      by (auto dest: callOllama_totalIsSum)
  qed
next
  assume "oa_usage data = Some usage"
  then show "res_tokenUsage (openAI_parse env data) =
        Some \<lparr>inputTokens = orZero (prompt_tokens usage),
              outputTokens = orZero (completion_tokens usage),
              totalTokens = orZero (total_tokens usage)\<rparr>"
    by (simp add: openAI_parse_def Let_def)
next
  assume "go_usageMetadata gdata = Some gusage"
  then show "\<exists>gr. fst (google_parse env gdata w) = Inr gr \<and>
            res_tokenUsage gr =
              Some \<lparr>inputTokens = orZero (promptTokenCount gusage),
                    outputTokens = orZero (candidatesTokenCount gusage),
                    totalTokens = orZero (totalTokenCount gusage)\<rparr>"
    by (simp add: google_parse_def Let_def case_prod_unfold)
qed

theorem usage_total_by_adapter_witness:
  "fst (callAnthropic (ex_env ex_nothingStored) ex_messages ex_anthropicConfig [ex_tool] True True
          True ex_world) =
     Inr \<lparr>res_content = ''It is 20 C'',
          res_tokenUsage = Some \<lparr>inputTokens = 40, outputTokens = 6, totalTokens = 46\<rparr>,
          res_toolCalls = Some [ex_toolCall ''toolu_1'']\<rparr> \<and>
   fst (callOllama (ex_env ex_nothingStored) ex_messages (ex_config ''gemma3'' None) [ex_tool]
          False ex_world) =
     Inr \<lparr>res_content = ''It is 20 C'',
          res_tokenUsage = Some \<lparr>inputTokens = 40, outputTokens = 6, totalTokens = 46\<rparr>,
          res_toolCalls = Some [ex_toolCall ''call_1'']\<rparr> \<and>
   getProviderForModel (cfg_model ex_anthropicConfig) = Some Anthropic \<and>
   fst (createApiCall (ex_env ex_nothingStored) ex_messages ex_anthropicConfig [ex_tool] False
          False False ex_world) =
     Inr \<lparr>cr_content = ''It is 20 C'',
          cr_metadata =
            \<lparr>md_tokenUsage =
               Some \<lparr>inputTokens = 40, outputTokens = 6, totalTokens = 46\<rparr>,
             md_timeTaken = 3, md_cost = Some (21 / 100000)\<rparr>,
          cr_toolCalls = Some [ex_toolCall ''toolu_1'']\<rparr> \<and>
   oa_usage (ex_openAIData 0) =
     Some \<lparr>prompt_tokens = Some 10, completion_tokens = Some 1, total_tokens = Some 99\<rparr> \<and>
   go_usageMetadata (ex_googleData 1) =
     Some \<lparr>promptTokenCount = Some 30, candidatesTokenCount = Some 5, totalTokenCount = None\<rparr> \<and>
   totalIsSum (Some \<lparr>inputTokens = 40, outputTokens = 6, totalTokens = 46\<rparr>) \<and>
   res_tokenUsage (openAI_parse (ex_env ex_nothingStored) (ex_openAIData 0)) =
     Some \<lparr>inputTokens = 10, outputTokens = 1, totalTokens = 99\<rparr>"
proof -
  let ?R = "\<lparr>res_content = ''It is 20 C'',
          res_tokenUsage = Some \<lparr>inputTokens = 40, outputTokens = 6, totalTokens = 46\<rparr>,
          res_toolCalls = Some [ex_toolCall ''toolu_1'']\<rparr>"
  have a: "fst (callAnthropic (ex_env ex_nothingStored) ex_messages ex_anthropicConfig [ex_tool]
                  True True True ex_world) = Inr ?R" by code_simp
  have o: "fst (callOllama (ex_env ex_nothingStored) ex_messages (ex_config ''gemma3'' None) [ex_tool]
          False ex_world) =
     Inr \<lparr>res_content = ''It is 20 C'',
          res_tokenUsage = Some \<lparr>inputTokens = 40, outputTokens = 6, totalTokens = 46\<rparr>,
          res_toolCalls = Some [ex_toolCall ''call_1'']\<rparr>" by code_simp
  have p: "getProviderForModel (cfg_model ex_anthropicConfig) = Some Anthropic" by code_simp
  have f: "fst (createApiCall (ex_env ex_nothingStored) ex_messages ex_anthropicConfig [ex_tool] False
          False False ex_world) =
     Inr \<lparr>cr_content = ''It is 20 C'',
          cr_metadata =
            \<lparr>md_tokenUsage =
               Some \<lparr>inputTokens = 40, outputTokens = 6, totalTokens = 46\<rparr>,
             md_timeTaken = 3, md_cost = Some (21 / 100000)\<rparr>,
          cr_toolCalls = Some [ex_toolCall ''toolu_1'']\<rparr>" by code_simp
  have u: "oa_usage (ex_openAIData 0) =
     Some \<lparr>prompt_tokens = Some 10, completion_tokens = Some 1, total_tokens = Some 99\<rparr>"
    by code_simp
  have g: "go_usageMetadata (ex_googleData 1) =
     Some \<lparr>promptTokenCount = Some 30, candidatesTokenCount = Some 5, totalTokenCount = None\<rparr>"
    by code_simp
  note t = usage_total_by_adapter [where env = "ex_env ex_nothingStored" and messages = ex_messages
      and config = ex_anthropicConfig and tools = "[ex_tool]" and onChunk = True
      and onToolCall = True and onToolResult = True and w = ex_world and r = ?R
      and data = "ex_openAIData 0"
      and usage = "\<lparr>prompt_tokens = Some 10, completion_tokens = Some 1, total_tokens = Some 99\<rparr>"]
  from t a have s: "totalIsSum (res_tokenUsage ?R)" by blast
  from t u have q: "res_tokenUsage (openAI_parse (ex_env ex_nothingStored) (ex_openAIData 0)) =
        Some \<lparr>inputTokens = orZero (prompt_tokens \<lparr>prompt_tokens = Some 10, completion_tokens = Some 1, total_tokens = Some 99\<rparr>),
              outputTokens = orZero (completion_tokens \<lparr>prompt_tokens = Some 10, completion_tokens = Some 1, total_tokens = Some 99\<rparr>),
              totalTokens = orZero (total_tokens \<lparr>prompt_tokens = Some 10, completion_tokens = Some 1, total_tokens = Some 99\<rparr>)\<rparr>" by blast
  from s have s': "totalIsSum (Some \<lparr>inputTokens = 40, outputTokens = 6, totalTokens = 46\<rparr>)"
    by simp
  from q have q': "res_tokenUsage (openAI_parse (ex_env ex_nothingStored) (ex_openAIData 0)) =
     Some \<lparr>inputTokens = 10, outputTokens = 1, totalTokens = 99\<rparr>"
    by (simp add: orZero_def)
  from a o p f u g s' q' show ?thesis by blast
qed

text \<open>
  The invariant as the claim states it fails for OpenAI: a payload whose usage is
  10 prompt tokens, 1 completion token and a total of 99 comes back from the facade
  with totalTokens = 99.
\<close>

theorem usage_total_by_adapter_counterexample:
  "fst (createApiCall (ex_env ex_nothingStored) ex_messages ex_openAIConfig [ex_tool] False False
          False ex_world) =
     Inr \<lparr>cr_content = ''It is 20 C'',
          cr_metadata =
            \<lparr>md_tokenUsage =
               Some \<lparr>inputTokens = 10, outputTokens = 1, totalTokens = 99\<rparr>,
             md_timeTaken = 3, md_cost = Some (21 / 10000000)\<rparr>,
          cr_toolCalls = Some [ex_toolCall ''call_1'']\<rparr> \<and>
   \<not> totalIsSum (Some \<lparr>inputTokens = 10, outputTokens = 1, totalTokens = 99\<rparr>)"
  by code_simp

text \<open>
  Claim C7 (as amended): at the start of every facade call the stored configuration of
  the resolved provider is merged over the given config: a stored API key (base URL)
  that is present and not empty replaces the one of the config, and otherwise the
  config keeps its own. Every request of the call carries the credential of the merged
  config. So the key the given config holds is what the resolved provider receives
  whenever nothing is stored for that provider.
\<close>

theorem stored_credentials_merged:
  assumes "getProviderForModel (cfg_model config) = Some provider"
  shows
   "apiKey (mergedConfig config (getProviderConfigs env provider)) =
      (case getProviderConfigs env provider of
         None \<Rightarrow> apiKey config
       | Some stored \<Rightarrow> if truthy (pc_apiKey stored) then pc_apiKey stored else apiKey config) \<and>
    baseUrl (mergedConfig config (getProviderConfigs env provider)) =
      (case getProviderConfigs env provider of
         None \<Rightarrow> baseUrl config
       | Some stored \<Rightarrow> if truthy (pc_baseUrl stored) then pc_baseUrl stored else baseUrl config) \<and>
    list_all (carriesCredential provider (mergedConfig config (getProviderConfigs env provider)))
      (requestsSent w
         (createApiCall env messages config tools onChunk onToolCall onToolResult w))"
proof (intro conjI)
  show "apiKey (mergedConfig config (getProviderConfigs env provider)) =
      (case getProviderConfigs env provider of
         None \<Rightarrow> apiKey config
       | Some stored \<Rightarrow> if truthy (pc_apiKey stored) then pc_apiKey stored else apiKey config)"
    by (simp add: mergedConfig_def Let_def truthy_def split: option.splits)
  show "baseUrl (mergedConfig config (getProviderConfigs env provider)) =
      (case getProviderConfigs env provider of
         None \<Rightarrow> baseUrl config
       | Some stored \<Rightarrow> if truthy (pc_baseUrl stored) then pc_baseUrl stored else baseUrl config)"
    by (simp add: mergedConfig_def Let_def truthy_def split: option.splits)
  show "list_all (carriesCredential provider (mergedConfig config (getProviderConfigs env provider)))
      (requestsSent w
         (createApiCall env messages config tools onChunk onToolCall onToolResult w))"
    unfolding createApiCall_requestsSent [OF assms]
    by (cases provider)
       (simp_all add: callOpenAI_credential callAnthropic_credential callGoogle_credential
          callOllama_credential)
qed

theorem stored_credentials_merged_witness:
  "getProviderForModel (cfg_model ex_leftoverConfig) = Some Anthropic \<and>
   apiKey (mergedConfig ex_leftoverConfig (getProviderConfigs (ex_env ex_anthropicStored) Anthropic))
     = Some ''sk-ant-stored'' \<and>
   list_all
     (carriesCredential Anthropic
        (mergedConfig ex_leftoverConfig (getProviderConfigs (ex_env ex_anthropicStored) Anthropic)))
     (requestsSent ex_world
        (createApiCall (ex_env ex_anthropicStored) ex_messages ex_leftoverConfig [] True False
           False ex_world)) \<and>
   map req_headers
     (requestsSent ex_world
        (createApiCall (ex_env ex_anthropicStored) ex_messages ex_leftoverConfig [] True False
           False ex_world))
     = [[(''Content-Type'', ''application/json''),
         (''x-api-key'', ''sk-ant-stored''),
         (''anthropic-version'', ''2023-06-01'')]]"
proof -
  have p: "getProviderForModel (cfg_model ex_leftoverConfig) = Some Anthropic" by code_simp
  have k: "(case getProviderConfigs (ex_env ex_anthropicStored) Anthropic of
         None \<Rightarrow> apiKey ex_leftoverConfig
       | Some stored \<Rightarrow>
           if truthy (pc_apiKey stored) then pc_apiKey stored else apiKey ex_leftoverConfig)
       = Some ''sk-ant-stored''" by code_simp
  have h: "map req_headers
     (requestsSent ex_world
        (createApiCall (ex_env ex_anthropicStored) ex_messages ex_leftoverConfig [] True False
           False ex_world))
     = [[(''Content-Type'', ''application/json''),
         (''x-api-key'', ''sk-ant-stored''),
         (''anthropic-version'', ''2023-06-01'')]]" by code_simp
  from stored_credentials_merged [OF p, where env = "ex_env ex_anthropicStored"
      and messages = ex_messages and tools = "[]" and onChunk = True and onToolCall = False
      and onToolResult = False and w = ex_world] k p h
  show ?thesis by simp
qed

text \<open>
  A key left in the config is sent to the resolved provider when nothing is stored for
  it: the config of an Anthropic model that holds the key \<open>sk-openai-leftover\<close>
  makes the facade send that key in the \<open>x-api-key\<close> header.
\<close>

theorem stored_credentials_merged_counterexample:
  "getProviderForModel (cfg_model ex_leftoverConfig) = Some Anthropic \<and>
   apiKey ex_leftoverConfig = Some ''sk-openai-leftover'' \<and>
   ex_nothingStored Anthropic = None \<and>
   map req_headers
     (requestsSent ex_world
        (createApiCall (ex_env ex_nothingStored) ex_messages ex_leftoverConfig [] True False False
           ex_world))
     = [[(''Content-Type'', ''application/json''),
         (''x-api-key'', ''sk-openai-leftover''),
         (''anthropic-version'', ''2023-06-01'')]]"
  by code_simp

end
